theory Spec2Isabelle
  imports Main "HOL-Library.Word"
begin

unbundle bit_operations_syntax

section \<open>SD/MMC block driver (libc/drivers/diskio.c)\<close>

subsection \<open>Types and constants of the missing headers\<close>

type_synonym BYTE = "8 word"
type_synonym DWORD = "32 word"

text \<open>
  The command macros of \<^verbatim>\<open>sd_mmc.h\<close> (a header that is not part of the sources at
  hand). \<^verbatim>\<open>diskio.c\<close> only passes them on to \<^verbatim>\<open>SendCommand\<close> and compares
  \<^verbatim>\<open>cmd == CMD18\<close>, so they are modelled as an enumeration of distinct names.
\<close>

datatype sd_cmd =
  CMD0 | CMD1 | CMD8 | CMD9 | CMD12 | CMD16 | CMD17 | CMD18 | CMD24 | CMD25 | CMD58
  | ACMD23 | ACMD41

text \<open>
  The card type bits, as the comment at the declaration of \<^verbatim>\<open>CardType\<close> gives them:
  \<^verbatim>\<open>b0:MMC, b1:SDv1, b2:SDv2, b3:Block addressing\<close>. \<^verbatim>\<open>CT_SDC\<close> is the SD family,
  SDv1 or SDv2.
\<close>

definition CT_MMC :: BYTE where "CT_MMC = 1"
definition CT_SDC1 :: BYTE where "CT_SDC1 = 2"
definition CT_SDC2 :: BYTE where "CT_SDC2 = 4"
definition CT_BLOCK :: BYTE where "CT_BLOCK = 8"
definition CT_SDC :: BYTE where "CT_SDC = CT_SDC1 OR CT_SDC2"

text \<open>The result codes of \<^verbatim>\<open>diskio.h\<close> (FatFs), and the status bit \<^verbatim>\<open>STA_NOINIT\<close>.\<close>

datatype DRESULT = RES_OK | RES_ERROR | RES_WRPRT | RES_NOTRDY | RES_PARERR

definition STA_NOINIT :: BYTE where "STA_NOINIT = 1"

text \<open>
  The control codes of \<^verbatim>\<open>disk_ioctl\<close>. \<open>CTRL_other b\<close> stands for a control byte
  \<open>b\<close> that is none of the three macros the switch names.
\<close>

datatype ioctl_code = CTRL_SYNC | GET_SECTOR_COUNT | GET_BLOCK_SIZE | CTRL_other BYTE

subsection \<open>The command transport and the driver state\<close>

text \<open>
  \<^verbatim>\<open>EnableSD\<close>, \<^verbatim>\<open>SelectSD\<close>, \<^verbatim>\<open>ReleaseSD\<close>, \<^verbatim>\<open>SendCommand\<close>, \<^verbatim>\<open>ReceiveSD\<close>,
  \<^verbatim>\<open>ReceiveBlock\<close> and \<^verbatim>\<open>SendBlock\<close> are the external command transport. The driver
  is verified for every transport: a transport is a record of functions over a
  device state \<open>'d\<close> of its own. Response codes and success flags are C integers whose
  declared type is in the missing header; they are taken as \<open>int\<close>. A receive call
  returns the bytes the transport stores at the destination.
\<close>

record 'd sd_mmc =
  hw_EnableSD :: "BYTE \<Rightarrow> 'd \<Rightarrow> 'd"
  hw_SelectSD :: "BYTE \<Rightarrow> 'd \<Rightarrow> int \<times> 'd"
  hw_ReleaseSD :: "BYTE \<Rightarrow> 'd \<Rightarrow> 'd"
  hw_SendCommand :: "BYTE \<Rightarrow> sd_cmd \<Rightarrow> DWORD \<Rightarrow> 'd \<Rightarrow> int \<times> 'd"
  hw_ReceiveSD :: "BYTE \<Rightarrow> nat \<Rightarrow> 'd \<Rightarrow> BYTE list \<times> 'd"
  hw_ReceiveBlock :: "BYTE \<Rightarrow> nat \<Rightarrow> 'd \<Rightarrow> (int \<times> BYTE list) \<times> 'd"
  hw_SendBlock :: "BYTE \<Rightarrow> BYTE list option \<Rightarrow> BYTE \<Rightarrow> 'd \<Rightarrow> int \<times> 'd"

text \<open>
  Every call the driver makes is recorded, with its arguments and its reply, in the
  order of the calls. \<open>Ev_WAITS\<close> is the busy-wait of the \<^verbatim>\<open>WAITS\<close> macro.
\<close>

datatype sd_event =
    Ev_EnableSD BYTE
  | Ev_SelectSD BYTE int
  | Ev_ReleaseSD BYTE
  | Ev_SendCommand BYTE sd_cmd DWORD int
  | Ev_ReceiveSD BYTE nat "BYTE list"
  | Ev_ReceiveBlock BYTE nat int "BYTE list"
  | Ev_SendBlock BYTE "BYTE list option" BYTE int
  | Ev_WAITS

text \<open>
  The state the driver runs in: the file-scope variable \<^verbatim>\<open>static char CardType\<close>,
  the byte-addressed memory that holds the callers' buffers and the driver's local
  arrays, the device behind the transport, and the record of calls.
\<close>

record 'd driver =
  CardType :: BYTE
  ram :: "nat \<Rightarrow> BYTE"
  dev :: 'd
  trace :: "sd_event list"

definition store :: "(nat \<Rightarrow> BYTE) \<Rightarrow> nat \<Rightarrow> BYTE list \<Rightarrow> (nat \<Rightarrow> BYTE)" where
  "store m a bs = (\<lambda>x. if a \<le> x \<and> x < a + length bs then bs ! (x - a) else m x)"

definition fetch :: "(nat \<Rightarrow> BYTE) \<Rightarrow> nat \<Rightarrow> nat \<Rightarrow> BYTE list" where
  "fetch m a n = map m [a ..< a + n]"

definition EnableSD :: "'d sd_mmc \<Rightarrow> BYTE \<Rightarrow> 'd driver \<Rightarrow> 'd driver" where
  "EnableSD T pdrv s =
     s\<lparr>dev := hw_EnableSD T pdrv (dev s), trace := trace s @ [Ev_EnableSD pdrv]\<rparr>"

definition SelectSD :: "'d sd_mmc \<Rightarrow> BYTE \<Rightarrow> 'd driver \<Rightarrow> int \<times> 'd driver" where
  "SelectSD T pdrv s =
     (case hw_SelectSD T pdrv (dev s) of (r, d) \<Rightarrow>
        (r, s\<lparr>dev := d, trace := trace s @ [Ev_SelectSD pdrv r]\<rparr>))"

definition ReleaseSD :: "'d sd_mmc \<Rightarrow> BYTE \<Rightarrow> 'd driver \<Rightarrow> 'd driver" where
  "ReleaseSD T pdrv s =
     s\<lparr>dev := hw_ReleaseSD T pdrv (dev s), trace := trace s @ [Ev_ReleaseSD pdrv]\<rparr>"

definition SendCommand ::
  "'d sd_mmc \<Rightarrow> BYTE \<Rightarrow> sd_cmd \<Rightarrow> DWORD \<Rightarrow> 'd driver \<Rightarrow> int \<times> 'd driver" where
  "SendCommand T pdrv cmd arg s =
     (case hw_SendCommand T pdrv cmd arg (dev s) of (r, d) \<Rightarrow>
        (r, s\<lparr>dev := d, trace := trace s @ [Ev_SendCommand pdrv cmd arg r]\<rparr>))"

text \<open>\<^verbatim>\<open>ReceiveSD(pdrv, buff, n)\<close>: at most \<open>n\<close> bytes are stored at address \<open>buff\<close>.\<close>

definition ReceiveSD :: "'d sd_mmc \<Rightarrow> BYTE \<Rightarrow> nat \<Rightarrow> nat \<Rightarrow> 'd driver \<Rightarrow> 'd driver" where
  "ReceiveSD T pdrv buff n s =
     (case hw_ReceiveSD T pdrv n (dev s) of (bs, d) \<Rightarrow>
        s\<lparr>ram := store (ram s) buff (take n bs), dev := d,
           trace := trace s @ [Ev_ReceiveSD pdrv n bs]\<rparr>)"

definition ReceiveBlock ::
  "'d sd_mmc \<Rightarrow> BYTE \<Rightarrow> nat \<Rightarrow> nat \<Rightarrow> 'd driver \<Rightarrow> int \<times> 'd driver" where
  "ReceiveBlock T pdrv buff n s =
     (case hw_ReceiveBlock T pdrv n (dev s) of ((r, bs), d) \<Rightarrow>
        (r, s\<lparr>ram := store (ram s) buff (take n bs), dev := d,
              trace := trace s @ [Ev_ReceiveBlock pdrv n r bs]\<rparr>))"

text \<open>
  \<^verbatim>\<open>SendBlock(pdrv, buff, token)\<close>: the transport is handed the 512 bytes at \<open>buff\<close>,
  or nothing when the pointer is null (the call with the stop token).
\<close>

definition SendBlock ::
  "'d sd_mmc \<Rightarrow> BYTE \<Rightarrow> nat option \<Rightarrow> BYTE \<Rightarrow> 'd driver \<Rightarrow> int \<times> 'd driver" where
  "SendBlock T pdrv buff token s =
     (let bs = map_option (\<lambda>a. fetch (ram s) a 512) buff in
      case hw_SendBlock T pdrv bs token (dev s) of (r, d) \<Rightarrow>
        (r, s\<lparr>dev := d, trace := trace s @ [Ev_SendBlock pdrv bs token r]\<rparr>))"

definition WAITS :: "'d driver \<Rightarrow> 'd driver" where
  "WAITS s = s\<lparr>trace := trace s @ [Ev_WAITS]\<rparr>"

subsection \<open>\<^verbatim>\<open>disk_initialize\<close>\<close>

text \<open>\<^verbatim>\<open>for (i=0;i<100;i++) ReceiveSD(pdrv, buff, 1);\<close>\<close>

function dummy_clocks :: "'d sd_mmc \<Rightarrow> BYTE \<Rightarrow> nat \<Rightarrow> nat \<Rightarrow> 'd driver \<Rightarrow> 'd driver" where
  "dummy_clocks T pdrv buff i s =
     (if i < 100 then dummy_clocks T pdrv buff (i + 1) (ReceiveSD T pdrv buff 1 s) else s)"
  by pat_completeness auto
termination
  by (relation "measure (\<lambda>(T, pdrv, buff, i, s). 100 - i)") auto

declare dummy_clocks.simps [simp del]

text \<open>
  The two polling loops of \<^verbatim>\<open>disk_initialize\<close>,
  \<^verbatim>\<open>for (i=0;i<10000;i++) { if (SendCommand(pdrv, cmd, arg) == 0) break; WAITS; }\<close>,
  with \<^verbatim>\<open>ACMD41\<close> and \<^verbatim>\<open>1 << 30\<close> on the SDv2 path, and with the chosen command and
  0 on the legacy path. The value of \<^verbatim>\<open>i\<close> after the loop is returned.
\<close>

function poll_ready ::
  "'d sd_mmc \<Rightarrow> BYTE \<Rightarrow> sd_cmd \<Rightarrow> DWORD \<Rightarrow> nat \<Rightarrow> 'd driver \<Rightarrow> nat \<times> 'd driver" where
  "poll_ready T pdrv cmd arg i s =
     (if i < 10000 then
        (case SendCommand T pdrv cmd arg s of (r, s') \<Rightarrow>
           if r = 0 then (i, s') else poll_ready T pdrv cmd arg (i + 1) (WAITS s'))
      else (i, s))"
  by pat_completeness auto
termination
  by (relation "measure (\<lambda>(T, pdrv, cmd, arg, i, s). 10000 - i)") auto

declare poll_ready.simps [simp del]

text \<open>
  The SDv2 branch, entered when \<^verbatim>\<open>CMD8\<close> has been answered with 1: from
  \<^verbatim>\<open>ReceiveSD(pdrv, buff, 4)\<close> to the end of the branch. \<open>buff\<close> is the address of the
  local array \<^verbatim>\<open>BYTE buff[4]\<close>. The value is the local \<^verbatim>\<open>type\<close>.
\<close>

definition init_sdv2 :: "'d sd_mmc \<Rightarrow> BYTE \<Rightarrow> nat \<Rightarrow> 'd driver \<Rightarrow> BYTE \<times> 'd driver" where
  "init_sdv2 T pdrv buff s0 =
     (let s1 = ReceiveSD T pdrv buff 4 s0 in
      if ram s1 (buff + 2) = 0x01 \<and> ram s1 (buff + 3) = 0xaa then
        (case poll_ready T pdrv ACMD41 (push_bit 30 1) 0 s1 of (i, s2) \<Rightarrow>
           if i < 10000 then
             (case SendCommand T pdrv CMD58 0 s2 of (r, s3) \<Rightarrow>
                if r = 0 then
                  (let s4 = ReceiveSD T pdrv buff 4 s3 in
                   if ram s4 buff AND 0x40 = 0 then (CT_SDC2, s4)
                   else (CT_SDC2 OR CT_BLOCK, s4))
                else (0, s3))
           else (0, s2))
      else (0, s1))"

text \<open>The legacy branch, entered when \<^verbatim>\<open>CMD8\<close> has not been answered with 1.\<close>

definition init_legacy :: "'d sd_mmc \<Rightarrow> BYTE \<Rightarrow> 'd driver \<Rightarrow> BYTE \<times> 'd driver" where
  "init_legacy T pdrv s0 =
     (case SendCommand T pdrv ACMD41 0 s0 of (r, s1) \<Rightarrow>
        (let (ty, cmd) = (if r \<le> 1 then (CT_SDC1, ACMD41) else (CT_MMC, CMD1)) in
         case poll_ready T pdrv cmd 0 0 s1 of (i, s2) \<Rightarrow>
           if i = 10000 then (0, s2)
           else (case SendCommand T pdrv CMD16 512 s2 of (r16, s3) \<Rightarrow>
                   if r16 \<noteq> 0 then (0, s3) else (ty, s3))))"

definition disk_initialize ::
  "'d sd_mmc \<Rightarrow> BYTE \<Rightarrow> nat \<Rightarrow> 'd driver \<Rightarrow> BYTE \<times> 'd driver" where
  "disk_initialize T pdrv buff s0 =
     (let s1 = dummy_clocks T pdrv buff 0 (EnableSD T pdrv s0) in
      case SendCommand T pdrv CMD0 0 s1 of (r0, s2) \<Rightarrow>
        (let (ty, s3) =
               (if r0 = 1 then
                  (case SendCommand T pdrv CMD8 0x1AA s2 of (r8, s) \<Rightarrow>
                     if r8 = 1 then init_sdv2 T pdrv buff s else init_legacy T pdrv s)
                else (0, s2));
             s4 = ReleaseSD T pdrv (s3\<lparr>CardType := ty\<rparr>)
         in (if ty = 0 then STA_NOINIT else 0, s4)))"

subsection \<open>\<^verbatim>\<open>disk_read\<close>\<close>

text \<open>
  \<^verbatim>\<open>for (i=0;i<count;i++) { if (ReceiveBlock(pdrv, buff, 512) == 0) break; buff += 512; }\<close>
  The comparison \<^verbatim>\<open>i < count\<close> of the \<^verbatim>\<open>int i\<close> with the \<^verbatim>\<open>unsigned int count\<close> is
  unsigned, so \<open>i\<close> is a 32-bit word.
\<close>

function read_blocks ::
  "'d sd_mmc \<Rightarrow> BYTE \<Rightarrow> DWORD \<Rightarrow> DWORD \<Rightarrow> nat \<Rightarrow> 'd driver \<Rightarrow> DWORD \<times> 'd driver" where
  "read_blocks T pdrv count i buff s =
     (if i < count then
        (case ReceiveBlock T pdrv buff 512 s of (r, s') \<Rightarrow>
           if r = 0 then (i, s') else read_blocks T pdrv count (i + 1) (buff + 512) s')
      else (i, s))"
  by pat_completeness auto
termination
proof (relation "measure (\<lambda>(T, pdrv, count, i, buff, s). unat count - unat i)", goal_cases)
  case 1
  show ?case
    by simp
next
  case (2 T pdrv count i buff s r s')
  from \<open>i < count\<close> have lt: "unat i < unat count"
    by (simp add: word_less_nat_alt)
  have "unat count < 2 ^ LENGTH(32)"
    by (rule unsigned_less)
  with lt have "unat i + unat (1 :: DWORD) < 2 ^ LENGTH(32)"
    by (simp del: unsigned_less)
  then have "unat (i + 1) = unat i + unat (1 :: DWORD)"
    by (rule unat_add_lem [THEN iffD1])
  with lt show ?case
    by simp
qed

declare read_blocks.simps [simp del]

text \<open>
  \<open>buff\<close> is the address of the caller's buffer, \<open>sector\<close> the value of
  \<^verbatim>\<open>(unsigned int)sector\<close>, and \<open>sect * 512\<close> wraps at 32 bits as it does in C.
\<close>

definition disk_read ::
  "'d sd_mmc \<Rightarrow> BYTE \<Rightarrow> nat \<Rightarrow> DWORD \<Rightarrow> DWORD \<Rightarrow> 'd driver \<Rightarrow> DRESULT \<times> 'd driver" where
  "disk_read T pdrv buff sector count s0 =
     (let sect = (if CardType s0 AND CT_BLOCK = 0 then sector * 512 else sector);
          cmd = (if count > 1 then CMD18 else CMD17)
      in case SendCommand T pdrv cmd sect s0 of (r, s1) \<Rightarrow>
        (let (i, s2) =
               (if r = 0 then
                  (case read_blocks T pdrv count 0 buff s1 of (i, s) \<Rightarrow>
                     if cmd = CMD18 then (i, snd (SendCommand T pdrv CMD12 0 s)) else (i, s))
                else (0, s1));
             s3 = ReleaseSD T pdrv s2
         in (if i \<noteq> count then RES_ERROR else RES_OK, s3)))"

subsection \<open>\<^verbatim>\<open>disk_write\<close>\<close>

text \<open>
  \<^verbatim>\<open>for (i=0;i<count;i++) { if (SendBlock(pdrv, buff, 0xfc) == 0) break; buff += 512; }\<close>
\<close>

function write_blocks ::
  "'d sd_mmc \<Rightarrow> BYTE \<Rightarrow> DWORD \<Rightarrow> DWORD \<Rightarrow> nat \<Rightarrow> 'd driver \<Rightarrow> DWORD \<times> 'd driver" where
  "write_blocks T pdrv count i buff s =
     (if i < count then
        (case SendBlock T pdrv (Some buff) 0xfc s of (r, s') \<Rightarrow>
           if r = 0 then (i, s') else write_blocks T pdrv count (i + 1) (buff + 512) s')
      else (i, s))"
  by pat_completeness auto
termination
proof (relation "measure (\<lambda>(T, pdrv, count, i, buff, s). unat count - unat i)", goal_cases)
  case 1
  show ?case
    by simp
next
  case (2 T pdrv count i buff s r s')
  from \<open>i < count\<close> have lt: "unat i < unat count"
    by (simp add: word_less_nat_alt)
  have "unat count < 2 ^ LENGTH(32)"
    by (rule unsigned_less)
  with lt have "unat i + unat (1 :: DWORD) < 2 ^ LENGTH(32)"
    by (simp del: unsigned_less)
  then have "unat (i + 1) = unat i + unat (1 :: DWORD)"
    by (rule unat_add_lem [THEN iffD1])
  with lt show ?case
    by simp
qed

declare write_blocks.simps [simp del]

text \<open>
  The function is compiled when \<^verbatim>\<open>FF_FS_READONLY == 0\<close>. \<open>sector\<close> is the value of
  \<^verbatim>\<open>(DWORD)sector\<close>; \<^verbatim>\<open>SendBlock(pdrv, 0, 0xfd)\<close> passes a null pointer.
\<close>

definition disk_write ::
  "'d sd_mmc \<Rightarrow> BYTE \<Rightarrow> nat \<Rightarrow> DWORD \<Rightarrow> DWORD \<Rightarrow> 'd driver \<Rightarrow> DRESULT \<times> 'd driver" where
  "disk_write T pdrv buff sector count s0 =
     (let sect = (if CardType s0 AND CT_BLOCK = 0 then sector * 512 else sector);
          (i, s1) =
            (if count = 1 then
               (case SendCommand T pdrv CMD24 sect s0 of (r, s) \<Rightarrow>
                  if r = 0 then
                    (case SendBlock T pdrv (Some buff) 0xfe s of (b, s') \<Rightarrow>
                       (if b \<noteq> 0 then 1 else 0, s'))
                  else (0, s))
             else
               (let sa = (if CardType s0 AND CT_SDC \<noteq> 0
                          then snd (SendCommand T pdrv ACMD23 count s0) else s0)
                in case SendCommand T pdrv CMD25 sect sa of (r, s) \<Rightarrow>
                  if r = 0 then
                    (case write_blocks T pdrv count 0 buff s of (i, s') \<Rightarrow>
                       case SendBlock T pdrv None 0xfd s' of (b, s'') \<Rightarrow>
                         (if b = 0 then 0 else i, s''))
                  else (0, s)));
          s2 = ReleaseSD T pdrv s1
      in (if count \<noteq> i then RES_ERROR else RES_OK, s2))"

subsection \<open>\<^verbatim>\<open>disk_ioctl\<close>\<close>

text \<open>
  What \<^verbatim>\<open>disk_ioctl\<close> stores through the caller's \<^verbatim>\<open>void *buff\<close>: nothing, the
  sector count \<^verbatim>\<open>*(LBA_t*)buff\<close> (the value of the 32-bit expression that is
  assigned), or the block size \<^verbatim>\<open>*(unsigned int*)buff\<close>. \<open>Undefined_shift\<close> is the
  shift \<^verbatim>\<open>cs << (n - 9)\<close> by a negative amount, which C leaves undefined.
\<close>

datatype ioctl_out = No_output | Out_LBA DWORD | Out_UINT DWORD | Undefined_shift

text \<open>
  The two decodings of the CSD register; \<open>csd k\<close> is \<^verbatim>\<open>csd[k]\<close>. The sums are
  computed in \<^verbatim>\<open>int\<close> and stay below \<open>2 ^ 23\<close>, so 32-bit words compute them.
\<close>

definition csd_v1_sectors :: "(nat \<Rightarrow> BYTE) \<Rightarrow> DWORD" where
  "csd_v1_sectors csd =
     (let cs = ucast (csd 9) + push_bit 8 (ucast (csd 8))
               + push_bit 16 (ucast (csd 7 AND 63)) + 1 :: DWORD
      in push_bit 10 cs)"

definition csd_v0_sectors :: "(nat \<Rightarrow> BYTE) \<Rightarrow> ioctl_out" where
  "csd_v0_sectors csd =
     (let n = (csd 5 AND 0x0f) + drop_bit 7 (csd 10) + push_bit 1 (csd 9 AND 0x03) + 2 :: BYTE;
          cs = ucast (drop_bit 6 (csd 9)) + push_bit 2 (ucast (csd 7))
               + push_bit 10 (ucast (csd 6 AND 0x03)) + 1 :: DWORD
      in if n < 9 then Undefined_shift else Out_LBA (push_bit (unat n - 9) cs))"

text \<open>\<open>csd\<close> is the address of the local array \<^verbatim>\<open>BYTE csd[16]\<close>.\<close>

definition disk_ioctl ::
  "'d sd_mmc \<Rightarrow> BYTE \<Rightarrow> ioctl_code \<Rightarrow> nat \<Rightarrow> 'd driver \<Rightarrow> (DRESULT \<times> ioctl_out) \<times> 'd driver" where
  "disk_ioctl T pdrv ctrl csd s0 =
     (case
        (case ctrl of
           CTRL_SYNC \<Rightarrow>
             (case SelectSD T pdrv s0 of (r, s) \<Rightarrow>
                ((if r \<noteq> 0 then RES_OK else RES_ERROR, No_output), s))
         | GET_SECTOR_COUNT \<Rightarrow>
             (case SendCommand T pdrv CMD9 0 s0 of (r, s) \<Rightarrow>
                if r = 0 then
                  (case ReceiveBlock T pdrv csd 16 s of (b, s') \<Rightarrow>
                     if b \<noteq> 0 then
                       ((RES_OK,
                         if ram s' csd AND 0x20 \<noteq> 0
                         then Out_LBA (csd_v1_sectors (\<lambda>k. ram s' (csd + k)))
                         else csd_v0_sectors (\<lambda>k. ram s' (csd + k))), s')
                     else ((RES_ERROR, No_output), s'))
                else ((RES_ERROR, No_output), s))
         | GET_BLOCK_SIZE \<Rightarrow> ((RES_OK, Out_UINT 128), s0)
         | CTRL_other b \<Rightarrow> ((RES_PARERR, No_output), s0))
      of (res, s1) \<Rightarrow> (res, ReleaseSD T pdrv s1))"

section \<open>Software UART (libc/drivers/SimpleSerial.c)\<close>

text \<open>
  The fields of \<^verbatim>\<open>FILE\<close> the driver uses: \<^verbatim>\<open>drvarg[0..3]\<close>, \<^verbatim>\<open>_flag\<close> and \<^verbatim>\<open>_lock\<close>.
\<close>

record FILE =
  drvarg :: "nat \<Rightarrow> DWORD"
  flag :: DWORD
  lock :: int

subsection \<open>\<^verbatim>\<open>_serial_putbyte\<close>, the bit-banged branch\<close>





subsection \<open>\<^verbatim>\<open>_serial_getbyte\<close>, the bit-banged branch\<close>






subsection \<open>\<^verbatim>\<open>_serial_fopen\<close>\<close>

text \<open>
  The compiled-in defaults and constants of the platform: \<^verbatim>\<open>_txpin\<close>, \<^verbatim>\<open>_rxpin\<close>,
  \<^verbatim>\<open>_baud\<close> (\<^verbatim>\<open>DBG_UART_TX_PIN\<close>, \<^verbatim>\<open>DBG_UART_RX_PIN\<close>, \<^verbatim>\<open>_dbgbaud\<close> when
  \<^verbatim>\<open>__propeller2__\<close> is defined), \<^verbatim>\<open>_clkfreq\<close>, the flag bit \<^verbatim>\<open>_IODEV\<close>, and which
  of the two branches of the conditional compilation is built.
\<close>

record platform =
  propeller2 :: bool
  default_txpin :: DWORD
  default_rxpin :: DWORD
  default_baud :: DWORD
  clkfreq :: DWORD
  IODEV :: DWORD

text \<open>
  \<^verbatim>\<open>atoi\<close> is not among the sources; \<^verbatim>\<open>_serial_fopen\<close> is modelled for any function
  \<open>atoi\<close> from strings to integers. For concrete strings, \<open>atoi_c\<close> is \<^verbatim>\<open>atoi\<close> as
  the C standard describes it: white space is skipped, then an optional sign and the
  longest run of decimal digits are read; the value is 0 when there is no digit.
\<close>

definition isspace_c :: "char \<Rightarrow> bool" where
  "isspace_c c = (c = CHR '' '' \<or> (9 \<le> (of_char c :: nat) \<and> (of_char c :: nat) \<le> 13))"

definition isdigit_c :: "char \<Rightarrow> bool" where
  "isdigit_c c = (48 \<le> (of_char c :: nat) \<and> (of_char c :: nat) \<le> 57)"

fun digits_value :: "int \<Rightarrow> string \<Rightarrow> int" where
  "digits_value acc [] = acc"
| "digits_value acc (c # cs) =
     (if isdigit_c c then digits_value (acc * 10 + (of_char c - 48)) cs else acc)"

definition atoi_c :: "string \<Rightarrow> int" where
  "atoi_c s =
     (case dropWhile isspace_c s of
        [] \<Rightarrow> 0
      | c # cs \<Rightarrow>
          if c = CHR ''-'' then - digits_value 0 cs
          else if c = CHR ''+'' then digits_value 0 cs
          else digits_value 0 (c # cs))"

text \<open>\<^verbatim>\<open>while (*name && *name != ',') name++;\<close> on the characters before the NUL.\<close>

definition skip_field :: "string \<Rightarrow> string" where
  "skip_field name = dropWhile (\<lambda>c. c \<noteq> CHR '','') name"

text \<open>
  The parsing of the connection string: the values of \<^verbatim>\<open>baud\<close>, \<^verbatim>\<open>rxpin\<close> and
  \<^verbatim>\<open>txpin\<close> after it. A null pointer is \<open>None\<close>. The \<^verbatim>\<open>int\<close> that \<^verbatim>\<open>atoi\<close>
  returns is converted to \<^verbatim>\<open>unsigned int\<close>.
\<close>

definition parse_name ::
  "(string \<Rightarrow> int) \<Rightarrow> platform \<Rightarrow> string option \<Rightarrow> DWORD \<times> DWORD \<times> DWORD" where
  "parse_name atoi pf name =
     (let txpin = default_txpin pf; rxpin = default_rxpin pf; baud = default_baud pf in
      case name of
        None \<Rightarrow> (baud, rxpin, txpin)
      | Some n0 \<Rightarrow>
          if n0 \<noteq> [] then
            (let baud = word_of_int (atoi n0); n1 = skip_field n0 in
             if n1 \<noteq> [] then
               (let n2 = tl n1; rxpin = word_of_int (atoi n2); n3 = skip_field n2 in
                if n3 \<noteq> [] then (baud, rxpin, word_of_int (atoi (tl n3)))
                else (baud, rxpin, txpin))
             else (baud, rxpin, txpin))
          else (baud, rxpin, txpin))"

text \<open>
  What C leaves undefined in the branch without \<^verbatim>\<open>__propeller2__\<close>: \<^verbatim>\<open>1U << pin\<close> for
  a pin of 32 or more, and \<^verbatim>\<open>_clkfreq / baud\<close> for a baud rate of 0.
\<close>

datatype fopen_undefined = Shift_too_far | Division_by_zero

text \<open>
  What \<^verbatim>\<open>_serial_fopen\<close> leaves when it returns: the \<^verbatim>\<open>int\<close> returned, the
  \<^verbatim>\<open>FILE\<close>, and the arguments of the call of \<^verbatim>\<open>_uart_init\<close> if there is one.
\<close>

record opened =
  rc :: int
  stream :: FILE
  uart_init :: "(DWORD \<times> DWORD \<times> DWORD) option"

text \<open>\<open>newlock\<close> is what \<^verbatim>\<open>_locknew()\<close> returns.\<close>

definition serial_fopen ::
  "(string \<Rightarrow> int) \<Rightarrow> platform \<Rightarrow> int \<Rightarrow> FILE \<Rightarrow> string option
     \<Rightarrow> fopen_undefined + opened" where
  "serial_fopen atoi pf newlock fp name =
     (case parse_name atoi pf name of (baud, rxpin, txpin) \<Rightarrow>
        (let finish = (\<lambda>fp1 init.
               Inr \<lparr>rc = 0, stream = fp1\<lparr>flag := flag fp1 OR IODEV pf, lock := newlock\<rparr>,
                    uart_init = init\<rparr>)
         in if propeller2 pf then
              finish (fp\<lparr>drvarg := (drvarg fp)(0 := rxpin, 1 := txpin, 2 := baud)\<rparr>)
                (Some (rxpin, txpin, baud))
            else if 32 \<le> rxpin \<or> 32 \<le> txpin then Inl Shift_too_far
            else if baud = 0 then Inl Division_by_zero
            else
              finish (fp\<lparr>drvarg := (drvarg fp)(0 := push_bit (unat rxpin) 1,
                                               1 := push_bit (unat txpin) 1,
                                               3 := clkfreq pf div baud)\<rparr>) None))"

section \<open>Observations on the record of calls\<close>

fun is_ReleaseSD :: "sd_event \<Rightarrow> bool" where
  "is_ReleaseSD (Ev_ReleaseSD p) = True"
| "is_ReleaseSD _ = False"

fun is_WAITS :: "sd_event \<Rightarrow> bool" where
  "is_WAITS Ev_WAITS = True"
| "is_WAITS _ = False"

fun is_cmd :: "sd_cmd \<Rightarrow> sd_event \<Rightarrow> bool" where
  "is_cmd c (Ev_SendCommand p c' a r) = (c' = c)"
| "is_cmd c _ = False"

fun is_ack :: "sd_cmd \<Rightarrow> sd_event \<Rightarrow> bool" where
  "is_ack c (Ev_SendCommand p c' a r) = (c' = c \<and> r = 0)"
| "is_ack c _ = False"

fun is_cmd_arg :: "BYTE \<Rightarrow> sd_cmd \<Rightarrow> DWORD \<Rightarrow> sd_event \<Rightarrow> bool" where
  "is_cmd_arg p c a (Ev_SendCommand p' c' a' r) = (p' = p \<and> c' = c \<and> a' = a)"
| "is_cmd_arg p c a _ = False"

definition occurrences :: "(sd_event \<Rightarrow> bool) \<Rightarrow> sd_event list \<Rightarrow> nat" where
  "occurrences P tr = length (filter P tr)"

text \<open>\<open>ends_with tr evs\<close>: the calls \<open>evs\<close> are the last calls of \<open>tr\<close>, in this order.\<close>

definition ends_with :: "sd_event list \<Rightarrow> sd_event list \<Rightarrow> bool" where
  "ends_with tr evs = (length evs \<le> length tr \<and> drop (length tr - length evs) tr = evs)"

section \<open>What a card does, seen from the transport\<close>

text \<open>
  The device after \<open>n\<close> calls \<^verbatim>\<open>ReceiveSD(pdrv, buff, 1)\<close>; and the device after
  \<open>k\<close> commands \<open>cmd\<close> with argument \<open>arg\<close> that were all answered with a code
  other than 0 (\<open>None\<close> when one of them was answered with 0).
\<close>

fun after_receives :: "'d sd_mmc \<Rightarrow> BYTE \<Rightarrow> nat \<Rightarrow> 'd \<Rightarrow> 'd" where
  "after_receives T pdrv 0 d = d"
| "after_receives T pdrv (Suc n) d = after_receives T pdrv n (snd (hw_ReceiveSD T pdrv 1 d))"

fun failed_polls :: "'d sd_mmc \<Rightarrow> BYTE \<Rightarrow> sd_cmd \<Rightarrow> DWORD \<Rightarrow> nat \<Rightarrow> 'd \<Rightarrow> 'd option" where
  "failed_polls T pdrv cmd arg 0 d = Some d"
| "failed_polls T pdrv cmd arg (Suc k) d =
     (case hw_SendCommand T pdrv cmd arg d of (r, d') \<Rightarrow>
        if r \<noteq> 0 then failed_polls T pdrv cmd arg k d' else None)"

section \<open>The sector count as the specification writes it\<close>

text \<open>
  The capacity formula of the specification for a CSD with bit 5 of byte 0 set,
  \<^verbatim>\<open>((csd[9] + csd[8]<<8 + (csd[7]&63)<<16) + 1) << 10\<close>, on natural numbers.
\<close>

definition spec_sector_count :: "nat \<Rightarrow> nat \<Rightarrow> nat \<Rightarrow> nat" where
  "spec_sector_count c7 c8 c9 = ((c9 + c8 * 2 ^ 8 + (c7 mod 64) * 2 ^ 16) + 1) * 2 ^ 10"

section \<open>Concrete transports and states\<close>

text \<open>
  Transports for evaluating the driver on concrete inputs. \<open>dead_card\<close> answers every
  command with \<open>0xff\<close>; \<open>ready_card\<close> answers every command with 0, delivers every
  block, takes every data block and rejects the stop token; \<open>stuck_card\<close> answers
  every command with 1 and echoes the voltage pattern.
\<close>

definition dead_card :: "unit sd_mmc" where
  "dead_card = \<lparr>hw_EnableSD = (\<lambda>p d. d), hw_SelectSD = (\<lambda>p d. (0, d)),
     hw_ReleaseSD = (\<lambda>p d. d), hw_SendCommand = (\<lambda>p c a d. (255, d)),
     hw_ReceiveSD = (\<lambda>p n d. (replicate n 255, d)),
     hw_ReceiveBlock = (\<lambda>p n d. ((0, []), d)),
     hw_SendBlock = (\<lambda>p bs t d. (0, d))\<rparr>"

definition ready_card :: "unit sd_mmc" where
  "ready_card = \<lparr>hw_EnableSD = (\<lambda>p d. d), hw_SelectSD = (\<lambda>p d. (1, d)),
     hw_ReleaseSD = (\<lambda>p d. d), hw_SendCommand = (\<lambda>p c a d. (0, d)),
     hw_ReceiveSD = (\<lambda>p n d. (replicate n 255, d)),
     hw_ReceiveBlock = (\<lambda>p n d. ((1, replicate n 0), d)),
     hw_SendBlock = (\<lambda>p bs t d. (if t = 0xfd then 0 else 1, d))\<rparr>"


text \<open>
  \<open>slow_sdhc_card\<close> remembers the last command and the number of polls it will still
  answer with 1: it answers \<^verbatim>\<open>CMD0\<close> and \<^verbatim>\<open>CMD8\<close> with 1, echoes the voltage
  pattern, becomes ready under \<^verbatim>\<open>ACMD41\<close> when that number has run down, and reports
  block addressing in the four bytes that follow \<^verbatim>\<open>CMD58\<close>. \<open>csd_card\<close> delivers the
  register \<open>csd_sample\<close>, in which bit 5 of byte 0 is set and bytes 7 to 9 are
  \<open>0x3f\<close>, \<open>0x00\<close>, \<open>0x01\<close>; \<open>csd_full_card\<close> delivers \<open>csd_full\<close>, in which they
  are \<open>0x3f\<close>, \<open>0xff\<close>, \<open>0xff\<close>.
\<close>

definition slow_sdhc_card :: "(sd_cmd \<times> nat) sd_mmc" where
  "slow_sdhc_card = \<lparr>hw_EnableSD = (\<lambda>p d. d), hw_SelectSD = (\<lambda>p d. (1, d)),
     hw_ReleaseSD = (\<lambda>p d. d),
     hw_SendCommand = (\<lambda>p c a d.
        if c = CMD0 \<or> c = CMD8 then (1, (c, snd d))
        else if c = ACMD41 then (if snd d = 0 then (0, (c, 0)) else (1, (c, snd d - 1)))
        else (0, (c, snd d))),
     hw_ReceiveSD = (\<lambda>p n d. (if fst d = CMD58 then [0xc0, 0xff, 0x80, 0x00]
                                 else [0x00, 0x00, 0x01, 0xaa], d)),
     hw_ReceiveBlock = (\<lambda>p n d. ((1, replicate n 0), d)),
     hw_SendBlock = (\<lambda>p bs t d. (1, d))\<rparr>"

definition csd_sample :: "BYTE list" where
  "csd_sample = [0x60, 0x0e, 0x00, 0x32, 0x5b, 0x59, 0x00, 0x3f,
                 0x00, 0x01, 0x7f, 0x80, 0x0a, 0x40, 0x00, 0x01]"

definition csd_card :: "unit sd_mmc" where
  "csd_card = \<lparr>hw_EnableSD = (\<lambda>p d. d), hw_SelectSD = (\<lambda>p d. (1, d)),
     hw_ReleaseSD = (\<lambda>p d. d), hw_SendCommand = (\<lambda>p c a d. (0, d)),
     hw_ReceiveSD = (\<lambda>p n d. (replicate n 255, d)),
     hw_ReceiveBlock = (\<lambda>p n d. ((1, csd_sample), d)),
     hw_SendBlock = (\<lambda>p bs t d. (1, d))\<rparr>"

definition csd_full :: "BYTE list" where
  "csd_full = [0x60, 0x0e, 0x00, 0x32, 0x5b, 0x59, 0x00, 0x3f,
               0xff, 0xff, 0x7f, 0x80, 0x0a, 0x40, 0x00, 0x01]"

definition csd_full_card :: "unit sd_mmc" where
  "csd_full_card = \<lparr>hw_EnableSD = (\<lambda>p d. d), hw_SelectSD = (\<lambda>p d. (1, d)),
     hw_ReleaseSD = (\<lambda>p d. d), hw_SendCommand = (\<lambda>p c a d. (0, d)),
     hw_ReceiveSD = (\<lambda>p n d. (replicate n 255, d)),
     hw_ReceiveBlock = (\<lambda>p n d. ((1, csd_full), d)),
     hw_SendBlock = (\<lambda>p bs t d. (1, d))\<rparr>"

definition zero_ram :: "nat \<Rightarrow> BYTE" where
  "zero_ram a = 0"

definition power_on :: "'d \<Rightarrow> 'd driver" where
  "power_on d = \<lparr>CardType = 0, ram = zero_ram, dev = d, trace = []\<rparr>"

text \<open>A driver state in which an SDv2 card with block addressing has been classified.\<close>

definition block_addressed :: "unit driver" where
  "block_addressed = \<lparr>CardType = CT_SDC2 OR CT_BLOCK, ram = zero_ram, dev = (), trace = []\<rparr>"

text \<open>
  Two platforms for evaluating \<^verbatim>\<open>_serial_fopen\<close> on concrete strings, one for each
  branch of the conditional compilation, and a \<^verbatim>\<open>FILE\<close> with all fields 0.
\<close>

definition p2_board :: platform where
  "p2_board = \<lparr>propeller2 = True, default_txpin = 62, default_rxpin = 63,
     default_baud = 230400, clkfreq = 180000000, IODEV = 0x100\<rparr>"

definition p1_board :: platform where
  "p1_board = \<lparr>propeller2 = False, default_txpin = 30, default_rxpin = 31,
     default_baud = 115200, clkfreq = 80000000, IODEV = 0x100\<rparr>"

definition blank_file :: FILE where
  "blank_file = \<lparr>drvarg = (\<lambda>k. 0), flag = 0, lock = 0\<rparr>"



section \<open>Properties\<close>

subsection \<open>What each transport call leaves in the driver state\<close>

lemma occurrences_append [simp]:
  "occurrences P (xs @ ys) = occurrences P xs + occurrences P ys"
  by (simp add: occurrences_def)

lemma occurrences_Nil [simp]: "occurrences P [] = 0"
  by (simp add: occurrences_def)

lemma occurrences_Cons [simp]:
  "occurrences P (x # xs) = (if P x then 1 else 0) + occurrences P xs"
  by (simp add: occurrences_def)

lemma trace_EnableSD [simp]:
  "trace (EnableSD T p s) = trace s @ [Ev_EnableSD p]"
  by (simp add: EnableSD_def)

lemma trace_ReleaseSD [simp]:
  "trace (ReleaseSD T p s) = trace s @ [Ev_ReleaseSD p]"
  by (simp add: ReleaseSD_def)

lemma trace_WAITS [simp]: "trace (WAITS s) = trace s @ [Ev_WAITS]"
  by (simp add: WAITS_def)

lemma trace_SendCommand [simp]:
  "trace (snd (SendCommand T p c a s)) =
     trace s @ [Ev_SendCommand p c a (fst (SendCommand T p c a s))]"
  by (simp add: SendCommand_def split: prod.splits)

lemma trace_SelectSD [simp]:
  "trace (snd (SelectSD T p s)) = trace s @ [Ev_SelectSD p (fst (SelectSD T p s))]"
  by (simp add: SelectSD_def split: prod.splits)

lemma trace_ReceiveSD [simp]:
  "trace (ReceiveSD T p buff n s) =
     trace s @ [Ev_ReceiveSD p n (fst (hw_ReceiveSD T p n (dev s)))]"
  by (simp add: ReceiveSD_def split: prod.splits)

lemma ram_ReceiveSD:
  "ram (ReceiveSD T p buff n s) =
     store (ram s) buff (take n (fst (hw_ReceiveSD T p n (dev s))))"
  by (simp add: ReceiveSD_def split: prod.splits)

lemma trace_ReceiveBlock [simp]:
  "trace (snd (ReceiveBlock T p buff n s)) =
     trace s @ [Ev_ReceiveBlock p n (fst (ReceiveBlock T p buff n s))
                  (snd (fst (hw_ReceiveBlock T p n (dev s))))]"
  by (simp add: ReceiveBlock_def split: prod.splits)

lemma ram_ReceiveBlock:
  "ram (snd (ReceiveBlock T p buff n s)) =
     store (ram s) buff (take n (snd (fst (hw_ReceiveBlock T p n (dev s)))))"
  by (simp add: ReceiveBlock_def split: prod.splits)

lemma trace_SendBlock [simp]:
  "trace (snd (SendBlock T p buff tok s)) =
     trace s @ [Ev_SendBlock p (map_option (\<lambda>a. fetch (ram s) a 512) buff) tok
                  (fst (SendBlock T p buff tok s))]"
  by (simp add: SendBlock_def Let_def split: prod.splits)

lemma ram_SendCommand [simp]: "ram (snd (SendCommand T p c a s)) = ram s"
  by (simp add: SendCommand_def split: prod.splits)

lemma ram_SendBlock [simp]: "ram (snd (SendBlock T p buff tok s)) = ram s"
  by (simp add: SendBlock_def Let_def split: prod.splits)

lemma ram_SelectSD [simp]: "ram (snd (SelectSD T p s)) = ram s"
  by (simp add: SelectSD_def split: prod.splits)

lemma ram_ReleaseSD [simp]: "ram (ReleaseSD T p s) = ram s"
  by (simp add: ReleaseSD_def)

lemma ram_EnableSD [simp]: "ram (EnableSD T p s) = ram s"
  by (simp add: EnableSD_def)

lemma ram_WAITS [simp]: "ram (WAITS s) = ram s"
  by (simp add: WAITS_def)

lemma CardType_SendCommand [simp]: "CardType (snd (SendCommand T p c a s)) = CardType s"
  by (simp add: SendCommand_def split: prod.splits)

lemma CardType_SendBlock [simp]: "CardType (snd (SendBlock T p buff tok s)) = CardType s"
  by (simp add: SendBlock_def Let_def split: prod.splits)

lemma CardType_ReceiveBlock [simp]:
  "CardType (snd (ReceiveBlock T p buff n s)) = CardType s"
  by (simp add: ReceiveBlock_def split: prod.splits)

lemma CardType_ReceiveSD [simp]: "CardType (ReceiveSD T p buff n s) = CardType s"
  by (simp add: ReceiveSD_def split: prod.splits)

lemma CardType_SelectSD [simp]: "CardType (snd (SelectSD T p s)) = CardType s"
  by (simp add: SelectSD_def split: prod.splits)

lemma CardType_ReleaseSD [simp]: "CardType (ReleaseSD T p s) = CardType s"
  by (simp add: ReleaseSD_def)

lemma CardType_EnableSD [simp]: "CardType (EnableSD T p s) = CardType s"
  by (simp add: EnableSD_def)

lemma CardType_WAITS [simp]: "CardType (WAITS s) = CardType s"
  by (simp add: WAITS_def)

lemma fst_SendCommand [simp]:
  "fst (SendCommand T p c a s) = fst (hw_SendCommand T p c a (dev s))"
  by (simp add: SendCommand_def split: prod.splits)

subsection \<open>The loops add calls of one kind only\<close>

lemma read_blocks_occurrences:
  assumes "\<And>p n r bs. \<not> P (Ev_ReceiveBlock p n r bs)"
  shows "occurrences P (trace (snd (read_blocks T pdrv count i buff s))) =
         occurrences P (trace s)"
proof (induction T pdrv count i buff s rule: read_blocks.induct)
  case (1 T pdrv count i buff s)
  show ?case
  proof (cases "i < count \<and> fst (ReceiveBlock T pdrv buff 512 s) \<noteq> 0")
    case True
    then have "occurrences P (trace (snd (read_blocks T pdrv count (i + 1) (buff + 512)
                  (snd (ReceiveBlock T pdrv buff 512 s))))) =
               occurrences P (trace (snd (ReceiveBlock T pdrv buff 512 s)))"
      using "1.IH" [OF _ prod.collapse] by simp
    with True show ?thesis
      by (subst read_blocks.simps) (simp add: case_prod_beta assms)
  next
    case False
    then show ?thesis
      by (subst read_blocks.simps) (auto simp add: case_prod_beta assms)
  qed
qed

lemma write_blocks_occurrences:
  assumes "\<And>p bs r. \<not> P (Ev_SendBlock p (Some bs) 0xfc r)"
  shows "occurrences P (trace (snd (write_blocks T pdrv count i buff s))) =
         occurrences P (trace s)"
proof (induction T pdrv count i buff s rule: write_blocks.induct)
  case (1 T pdrv count i buff s)
  show ?case
  proof (cases "i < count \<and> fst (SendBlock T pdrv (Some buff) 0xfc s) \<noteq> 0")
    case True
    then have "occurrences P (trace (snd (write_blocks T pdrv count (i + 1) (buff + 512)
                  (snd (SendBlock T pdrv (Some buff) 0xfc s))))) =
               occurrences P (trace (snd (SendBlock T pdrv (Some buff) 0xfc s)))"
      using "1.IH" [OF _ prod.collapse] by simp
    with True show ?thesis
      by (subst write_blocks.simps) (simp add: case_prod_beta assms)
  next
    case False
    then show ?thesis
      by (subst write_blocks.simps) (auto simp add: case_prod_beta assms)
  qed
qed

lemma dummy_clocks_occurrences:
  assumes "\<And>p n bs. \<not> P (Ev_ReceiveSD p n bs)"
  shows "occurrences P (trace (dummy_clocks T pdrv buff i s)) = occurrences P (trace s)"
proof (induction T pdrv buff i s rule: dummy_clocks.induct)
  case (1 T pdrv buff i s)
  then show ?case
    by (subst dummy_clocks.simps) (simp add: assms)
qed

lemma poll_ready_occurrences:
  assumes "\<And>r. \<not> P (Ev_SendCommand pdrv cmd arg r)" and "\<not> P Ev_WAITS"
  shows "occurrences P (trace (snd (poll_ready T pdrv cmd arg i s))) = occurrences P (trace s)"
  using assms
proof (induction T pdrv cmd arg i s rule: poll_ready.induct)
  case (1 T pdrv cmd arg i s)
  show ?case
  proof (cases "i < 10000 \<and> fst (SendCommand T pdrv cmd arg s) \<noteq> 0")
    case True
    then have "occurrences P (trace (snd (poll_ready T pdrv cmd arg (i + 1)
                  (WAITS (snd (SendCommand T pdrv cmd arg s)))))) =
               occurrences P (trace (WAITS (snd (SendCommand T pdrv cmd arg s))))"
      using "1.IH" [OF _ prod.collapse] "1.prems" by simp
    with True show ?thesis
      using "1.prems" by (subst poll_ready.simps) (simp add: case_prod_beta)
  next
    case False
    then show ?thesis
      using "1.prems" by (subst poll_ready.simps) (auto simp add: case_prod_beta)
  qed
qed

lemma poll_ready_waits:
  "i \<le> 10000 \<Longrightarrow>
   occurrences is_WAITS (trace (snd (poll_ready T pdrv cmd arg i s))) + i =
     occurrences is_WAITS (trace s) + fst (poll_ready T pdrv cmd arg i s)
   \<and> fst (poll_ready T pdrv cmd arg i s) \<le> 10000"
proof (induction T pdrv cmd arg i s rule: poll_ready.induct)
  case (1 T pdrv cmd arg i s)
  show ?case
  proof (cases "i < 10000 \<and> fst (SendCommand T pdrv cmd arg s) \<noteq> 0")
    case True
    then have "occurrences is_WAITS (trace (snd (poll_ready T pdrv cmd arg (i + 1)
                  (WAITS (snd (SendCommand T pdrv cmd arg s)))))) + (i + 1) =
               occurrences is_WAITS (trace (WAITS (snd (SendCommand T pdrv cmd arg s))))
               + fst (poll_ready T pdrv cmd arg (i + 1)
                  (WAITS (snd (SendCommand T pdrv cmd arg s))))
             \<and> fst (poll_ready T pdrv cmd arg (i + 1)
                  (WAITS (snd (SendCommand T pdrv cmd arg s)))) \<le> 10000"
      using "1.IH" [OF _ prod.collapse] by simp
    with True show ?thesis
      by (subst (1 2 3) poll_ready.simps) (simp add: case_prod_beta)
  next
    case False
    with "1.prems" show ?thesis
      by (subst (1 2 3) poll_ready.simps) (auto simp add: case_prod_beta)
  qed
qed


lemma poll_ready_le: "fst (poll_ready T pdrv cmd arg 0 s) \<le> 10000"
  using poll_ready_waits [of 0 T pdrv cmd arg s] by simp



subsection \<open>The last calls of a record\<close>

lemma ends_with_Nil [simp]: "ends_with tr []"
  by (simp add: ends_with_def)

lemma ends_with_snoc [simp]:
  "ends_with (xs @ [x]) (ys @ [y]) = (x = y \<and> ends_with xs ys)"
  by (auto simp add: ends_with_def Suc_diff_le)

lemma ends_with_snoc1 [simp]:
  "ends_with (xs @ [x]) [y] = (x = y)"
  using ends_with_snoc [of xs x "[]" y] by simp

lemma ends_with_snoc2 [simp]:
  "ends_with (xs @ [x]) [z, y] = (x = y \<and> ends_with xs [z])"
  using ends_with_snoc [of xs x "[z]" y] by simp

lemma ends_with_snoc3 [simp]:
  "ends_with (xs @ [x]) [w, z, y] = (x = y \<and> ends_with xs [w, z])"
  using ends_with_snoc [of xs x "[w, z]" y] by simp

lemma ends_with_append [simp]: "ends_with (xs @ ys) ys"
  by (simp add: ends_with_def)

lemma ends_with_Nil_left [simp]: "ends_with [] (y # ys) = False"
  by (simp add: ends_with_def)

lemma ends_with_last:
  "tr \<noteq> [] \<Longrightarrow> evs \<noteq> [] \<Longrightarrow>
   ends_with tr evs = (last tr = last evs \<and> ends_with (butlast tr) (butlast evs))"
  by (cases tr rule: rev_cases; cases evs rule: rev_cases) auto

lemma ends_with_append_Cons [simp]:
  "ends_with (xs @ y # ys) (z # zs) =
     (last (y # ys) = last (z # zs) \<and> ends_with (xs @ butlast (y # ys)) (butlast (z # zs)))"
  using ends_with_last [of "xs @ y # ys" "z # zs"] by (simp add: butlast_append)

lemma ends_with_Cons_Cons [simp]:
  "ends_with (y # ys) (z # zs) =
     (last (y # ys) = last (z # zs) \<and> ends_with (butlast (y # ys)) (butlast (z # zs)))"
  using ends_with_last [of "y # ys" "z # zs"] by simp

subsection \<open>Memory and the CSD register\<close>

lemma store_hd: "bs \<noteq> [] \<Longrightarrow> store m a (take 4 bs) a = hd bs"
  by (cases bs) (simp_all add: store_def)

lemma and_63_unat: "unat (w AND 63 :: BYTE) = unat w mod 64"
proof -
  have "(63 :: BYTE) = mask 6"
    by (simp add: mask_eq_exp_minus_1)
  then have "w AND 63 = take_bit 6 w"
    by (simp add: take_bit_eq_mask)
  then show ?thesis
    by (simp add: take_bit_eq_mod unat_mod)
qed

lemma csd_v1_sectors_unat:
  "unat (csd_v1_sectors c) =
     spec_sector_count (unat (c 7)) (unat (c 8)) (unat (c 9)) mod 2 ^ 32"
proof -
  have "csd_v1_sectors c =
          of_nat (spec_sector_count (unat (c 7)) (unat (c 8)) (unat (c 9)))"
    by (simp add: csd_v1_sectors_def spec_sector_count_def Let_def push_bit_eq_mult
          and_63_unat [symmetric] algebra_simps)
  then show ?thesis
    by (simp add: unat_of_nat)
qed

lemma csd_v1_sectors_vector:
  "c 7 = 0x3f \<Longrightarrow> c 8 = 0x00 \<Longrightarrow> c 9 = 0x01 \<Longrightarrow> csd_v1_sectors c = push_bit 10 0x3f0002"
  by (simp add: csd_v1_sectors_def)

lemma spec_sector_count_less:
  assumes "c7 mod 64 \<noteq> 63 \<or> c8 \<noteq> 255 \<or> c9 \<noteq> 255" and "c8 < 256" and "c9 < 256"
  shows "spec_sector_count c7 c8 c9 < 2 ^ 32"
proof -
  have "c7 mod 64 < 64"
    by simp
  with assms have "c9 + c8 * 256 + (c7 mod 64) * 65536 + 1 < 4194304"
    by arith
  then show ?thesis
    by (simp add: spec_sector_count_def)
qed

lemma spec_sector_count_full:
  "c7 mod 64 = 63 \<Longrightarrow> spec_sector_count c7 255 255 = 2 ^ 32"
  by (simp add: spec_sector_count_def)

lemma byte_bound: "unat (w :: BYTE) < 256"
proof -
  have "unat w < 2 ^ LENGTH(8)"
    by (rule unsigned_less)
  then show ?thesis
    by simp
qed

lemma byte_eq_255: "(unat (w :: BYTE) = 255) = (w = 0xff)"
  by (simp add: word_unat_eq_iff)

lemma csd_v1_sectors_exact:
  assumes "unat (c 7) mod 64 \<noteq> 63 \<or> c 8 \<noteq> 0xff \<or> c 9 \<noteq> 0xff"
  shows "unat (csd_v1_sectors c) = spec_sector_count (unat (c 7)) (unat (c 8)) (unat (c 9))"
proof -
  from assms have "unat (c 7) mod 64 \<noteq> 63 \<or> unat (c 8) \<noteq> 255 \<or> unat (c 9) \<noteq> 255"
    by (simp only: byte_eq_255)
  then have "spec_sector_count (unat (c 7)) (unat (c 8)) (unat (c 9)) < 2 ^ 32"
    using byte_bound [of "c 8"] byte_bound [of "c 9"] by (rule spec_sector_count_less)
  then show ?thesis
    by (simp only: csd_v1_sectors_unat mod_less)
qed

lemma csd_v1_sectors_wraps:
  assumes "unat (c 7) mod 64 = 63" and "c 8 = 0xff" and "c 9 = 0xff"
  shows "csd_v1_sectors c = 0"
proof -
  have "unat (c 8) = 255" "unat (c 9) = 255"
    using assms by (simp_all only: byte_eq_255)
  with assms(1) have "spec_sector_count (unat (c 7)) (unat (c 8)) (unat (c 9)) = 2 ^ 32"
    by (simp only: spec_sector_count_full)
  then have "unat (csd_v1_sectors c) = 2 ^ 32 mod 2 ^ 32"
    by (simp only: csd_v1_sectors_unat)
  then show ?thesis
    by (simp add: unat_eq_0)
qed

subsection \<open>\<^verbatim>\<open>disk_initialize\<close> does not read \<^verbatim>\<open>CardType\<close>\<close>

lemma SendCommand_CardType_update:
  "SendCommand T p c a (s\<lparr>CardType := ct\<rparr>) =
     (fst (SendCommand T p c a s), (snd (SendCommand T p c a s))\<lparr>CardType := ct\<rparr>)"
  by (simp add: SendCommand_def split: prod.splits)

lemma ReceiveSD_CardType_update:
  "ReceiveSD T p buff n (s\<lparr>CardType := ct\<rparr>) = (ReceiveSD T p buff n s)\<lparr>CardType := ct\<rparr>"
  by (simp add: ReceiveSD_def split: prod.splits)

lemma EnableSD_CardType_update:
  "EnableSD T p (s\<lparr>CardType := ct\<rparr>) = (EnableSD T p s)\<lparr>CardType := ct\<rparr>"
  by (simp add: EnableSD_def)

lemma WAITS_CardType_update:
  "WAITS (s\<lparr>CardType := ct\<rparr>) = (WAITS s)\<lparr>CardType := ct\<rparr>"
  by (simp add: WAITS_def)

lemma dummy_clocks_CardType_update:
  "dummy_clocks T p buff i (s\<lparr>CardType := ct\<rparr>) = (dummy_clocks T p buff i s)\<lparr>CardType := ct\<rparr>"
proof (induction T p buff i s rule: dummy_clocks.induct)
  case (1 T pdrv buff i s)
  then show ?case
    by (subst (1 2) dummy_clocks.simps) (simp add: ReceiveSD_CardType_update)
qed

lemma poll_ready_CardType_update:
  "poll_ready T p c a i (s\<lparr>CardType := ct\<rparr>) =
     (fst (poll_ready T p c a i s), (snd (poll_ready T p c a i s))\<lparr>CardType := ct\<rparr>)"
proof (induction T p c a i s rule: poll_ready.induct)
  case (1 T pdrv cmd arg i s)
  show ?case
  proof (cases "i < 10000 \<and> fst (SendCommand T pdrv cmd arg s) \<noteq> 0")
    case True
    then have "poll_ready T pdrv cmd arg (i + 1)
                 ((WAITS (snd (SendCommand T pdrv cmd arg s)))\<lparr>CardType := ct\<rparr>) =
               (fst (poll_ready T pdrv cmd arg (i + 1) (WAITS (snd (SendCommand T pdrv cmd arg s)))),
                (snd (poll_ready T pdrv cmd arg (i + 1)
                   (WAITS (snd (SendCommand T pdrv cmd arg s)))))\<lparr>CardType := ct\<rparr>)"
      using "1.IH" [OF _ prod.collapse] by simp
    with True show ?thesis
      by (subst (1 2 3) poll_ready.simps)
         (simp add: case_prod_beta SendCommand_CardType_update WAITS_CardType_update)
  next
    case False
    then show ?thesis
      by (subst (1 2 3) poll_ready.simps)
         (auto simp add: case_prod_beta SendCommand_CardType_update)
  qed
qed

lemma disk_initialize_forgets:
  "disk_initialize T d1 buff (s\<lparr>CardType := ct\<rparr>) = disk_initialize T d1 buff s"
  by (simp add: disk_initialize_def init_sdv2_def init_legacy_def Let_def case_prod_beta
        EnableSD_CardType_update dummy_clocks_CardType_update SendCommand_CardType_update
        ReceiveSD_CardType_update poll_ready_CardType_update)

subsection \<open>The software UART: bits of the frame, transmit and receive loops\<close>







lemma single_bit_nonzero: "n < 32 \<Longrightarrow> push_bit n 1 \<noteq> (0 :: DWORD)"
  by simp








subsection \<open>The fields of the connection string\<close>

lemma skip_field_no_comma: "CHR '','' \<notin> set f \<Longrightarrow> skip_field f = []"
  by (auto simp add: skip_field_def)

lemma skip_field_comma:
  "CHR '','' \<notin> set f \<Longrightarrow> skip_field (f @ CHR '','' # rest) = CHR '','' # rest"
  by (induction f) (auto simp add: skip_field_def)

lemma atoi_c_comma: "atoi_c (CHR '','' # rest) = 0"
  by (simp add: atoi_c_def isspace_c_def isdigit_c_def)

subsection \<open>The device along a call of \<^verbatim>\<open>disk_initialize\<close>\<close>

lemma dev_EnableSD [simp]: "dev (EnableSD T p s) = hw_EnableSD T p (dev s)"
  by (simp add: EnableSD_def)

lemma dev_ReleaseSD [simp]: "dev (ReleaseSD T p s) = hw_ReleaseSD T p (dev s)"
  by (simp add: ReleaseSD_def)

lemma dev_WAITS [simp]: "dev (WAITS s) = dev s"
  by (simp add: WAITS_def)

lemma dev_SendCommand [simp]:
  "dev (snd (SendCommand T p c a s)) = snd (hw_SendCommand T p c a (dev s))"
  by (simp add: SendCommand_def split: prod.splits)

lemma dev_ReceiveSD [simp]:
  "dev (ReceiveSD T p buff n s) = snd (hw_ReceiveSD T p n (dev s))"
  by (simp add: ReceiveSD_def split: prod.splits)

lemma dev_dummy_clocks:
  "i \<le> 100 \<Longrightarrow> dev (dummy_clocks T p buff i s) = after_receives T p (100 - i) (dev s)"
proof (induction T p buff i s rule: dummy_clocks.induct)
  case (1 T pdrv buff i s)
  show ?case
  proof (cases "i < 100")
    case True
    then have "100 - i = Suc (100 - (i + 1))"
      by arith
    with True "1.IH" show ?thesis
      by (subst dummy_clocks.simps) simp
  next
    case False
    with "1.prems" show ?thesis
      by (subst dummy_clocks.simps) simp
  qed
qed

lemma poll_ready_after_failed_polls:
  "failed_polls T p c a k (dev s) = Some dk \<Longrightarrow> hw_SendCommand T p c a dk = (0, d') \<Longrightarrow>
   i + k < 10000 \<Longrightarrow>
   fst (poll_ready T p c a i s) = i + k
   \<and> dev (snd (poll_ready T p c a i s)) = d'
   \<and> ram (snd (poll_ready T p c a i s)) = ram s
   \<and> occurrences is_WAITS (trace (snd (poll_ready T p c a i s)))
       = occurrences is_WAITS (trace s) + k
   \<and> occurrences (is_cmd c) (trace (snd (poll_ready T p c a i s)))
       = occurrences (is_cmd c) (trace s) + k + 1
   \<and> (\<exists>tr. trace (snd (poll_ready T p c a i s)) = tr @ [Ev_SendCommand p c a 0])"
proof (induction k arbitrary: i s)
  case 0
  then show ?case
    by (subst (1 2 3 4 5 6) poll_ready.simps) (simp add: case_prod_beta)
next
  case (Suc k)
  let ?s1 = "WAITS (snd (SendCommand T p c a s))"
  from Suc.prems(1) have r: "fst (hw_SendCommand T p c a (dev s)) \<noteq> 0"
    and f: "failed_polls T p c a k (dev ?s1) = Some dk"
    by (auto simp add: case_prod_beta split: if_splits)
  from Suc.prems(3) have "i + 1 + k < 10000"
    by simp
  from Suc.IH [OF f Suc.prems(2) this]
  have IH: "fst (poll_ready T p c a (i + 1) ?s1) = i + 1 + k
   \<and> dev (snd (poll_ready T p c a (i + 1) ?s1)) = d'
   \<and> ram (snd (poll_ready T p c a (i + 1) ?s1)) = ram ?s1
   \<and> occurrences is_WAITS (trace (snd (poll_ready T p c a (i + 1) ?s1)))
       = occurrences is_WAITS (trace ?s1) + k
   \<and> occurrences (is_cmd c) (trace (snd (poll_ready T p c a (i + 1) ?s1)))
       = occurrences (is_cmd c) (trace ?s1) + k + 1
   \<and> (\<exists>tr. trace (snd (poll_ready T p c a (i + 1) ?s1)) = tr @ [Ev_SendCommand p c a 0])" .
  have eq: "poll_ready T p c a i s = poll_ready T p c a (i + 1) ?s1"
    using r Suc.prems(3) by (subst poll_ready.simps) (simp add: case_prod_beta)
  from IH show ?case
    by (simp only: eq) simp
qed

lemma slow_sdhc_card_receives: "after_receives slow_sdhc_card p n d = d"
  by (induction n) (simp_all add: slow_sdhc_card_def)
subsection \<open>Claims\<close>

text \<open>
  C10. With \<^verbatim>\<open>count\<close> 0, \<^verbatim>\<open>disk_read\<close> and \<^verbatim>\<open>disk_write\<close> return \<^verbatim>\<open>RES_OK\<close> on every
  drive, for every sector and every transport, and transfer no data. \<^verbatim>\<open>disk_read\<close>
  sends \<^verbatim>\<open>CMD17\<close> and releases the card, whatever the reply \<open>r\<close> to the command, and
  leaves the memory as it was. \<^verbatim>\<open>disk_write\<close> takes the multi-block path: \<^verbatim>\<open>ACMD23\<close>
  when the card is of the SD family, \<^verbatim>\<open>CMD25\<close>, the stop token \<^verbatim>\<open>0xfd\<close> when
  \<^verbatim>\<open>CMD25\<close> was answered with 0, and the release, whatever the reply \<open>r3\<close> to the
  stop token.
\<close>

theorem read_write_count_zero:
  "fst (disk_read T pdrv buff sector 0 s) = RES_OK
   \<and> ram (snd (disk_read T pdrv buff sector 0 s)) = ram s
   \<and> (\<exists>r. trace (snd (disk_read T pdrv buff sector 0 s)) =
         trace s @ [Ev_SendCommand pdrv CMD17
                      (if CardType s AND CT_BLOCK = 0 then sector * 512 else sector) r,
                    Ev_ReleaseSD pdrv])
   \<and> fst (disk_write T pdrv buff sector 0 s) = RES_OK
   \<and> (\<exists>r1 r2 r3. trace (snd (disk_write T pdrv buff sector 0 s)) =
         trace s
         @ (if CardType s AND CT_SDC \<noteq> 0 then [Ev_SendCommand pdrv ACMD23 0 r1] else [])
         @ [Ev_SendCommand pdrv CMD25
              (if CardType s AND CT_BLOCK = 0 then sector * 512 else sector) r2]
         @ (if r2 = 0 then [Ev_SendBlock pdrv None 0xfd r3] else [])
         @ [Ev_ReleaseSD pdrv])"
  by (auto simp add: disk_read_def disk_write_def read_blocks.simps write_blocks.simps
        Let_def case_prod_beta)

text \<open>
  C5. Every call of \<^verbatim>\<open>disk_read\<close>, \<^verbatim>\<open>disk_write\<close> and \<^verbatim>\<open>disk_ioctl\<close>, on any drive
  and with any arguments and transport, returns, and calls \<^verbatim>\<open>ReleaseSD\<close> exactly once:
  the record of calls has one more release than before, and the release of the drive is
  the last call made.
\<close>

theorem release_exactly_once:
  "occurrences is_ReleaseSD (trace (snd (disk_read T pdrv buff sector count s))) =
     occurrences is_ReleaseSD (trace s) + 1
   \<and> last (trace (snd (disk_read T pdrv buff sector count s))) = Ev_ReleaseSD pdrv
   \<and> occurrences is_ReleaseSD (trace (snd (disk_write T pdrv buff sector count s))) =
     occurrences is_ReleaseSD (trace s) + 1
   \<and> last (trace (snd (disk_write T pdrv buff sector count s))) = Ev_ReleaseSD pdrv
   \<and> occurrences is_ReleaseSD (trace (snd (disk_ioctl T pdrv ctrl csd s))) =
     occurrences is_ReleaseSD (trace s) + 1
   \<and> last (trace (snd (disk_ioctl T pdrv ctrl csd s))) = Ev_ReleaseSD pdrv"
proof (intro conjI)
  show "occurrences is_ReleaseSD (trace (snd (disk_read T pdrv buff sector count s))) =
     occurrences is_ReleaseSD (trace s) + 1"
    by (simp add: disk_read_def Let_def case_prod_beta read_blocks_occurrences)
  show "last (trace (snd (disk_read T pdrv buff sector count s))) = Ev_ReleaseSD pdrv"
    by (simp add: disk_read_def Let_def case_prod_beta)
  show "occurrences is_ReleaseSD (trace (snd (disk_write T pdrv buff sector count s))) =
     occurrences is_ReleaseSD (trace s) + 1"
    by (simp add: disk_write_def Let_def case_prod_beta write_blocks_occurrences)
  show "last (trace (snd (disk_write T pdrv buff sector count s))) = Ev_ReleaseSD pdrv"
    by (simp add: disk_write_def Let_def case_prod_beta)
  show "occurrences is_ReleaseSD (trace (snd (disk_ioctl T pdrv ctrl csd s))) =
     occurrences is_ReleaseSD (trace s) + 1"
    by (cases ctrl) (simp_all add: disk_ioctl_def case_prod_beta)
  show "last (trace (snd (disk_ioctl T pdrv ctrl csd s))) = Ev_ReleaseSD pdrv"
    by (cases ctrl) (simp_all add: disk_ioctl_def case_prod_beta)
qed

text \<open>
  C2, as stated: a read of more than one sector sends \<^verbatim>\<open>CMD12\<close> on every path. It does
  not: on a card that answers \<^verbatim>\<open>CMD18\<close> with \<open>0xff\<close>, a read of two sectors sends no
  \<^verbatim>\<open>CMD12\<close>.
\<close>

theorem cmd12_counterexample:
  "(1 :: DWORD) < 2
   \<and> occurrences (is_cmd CMD12) (trace (snd (disk_read dead_card 0 0 0 2 (power_on ())))) = 0"
  by (simp add: disk_read_def Let_def case_prod_beta dead_card_def power_on_def
        SendCommand_def ReleaseSD_def)

text \<open>
  C2, amended. For a read of more than one sector, \<^verbatim>\<open>CMD12\<close> is sent if and only if
  \<^verbatim>\<open>CMD18\<close> was answered with 0: then it is sent once, as the last call before the
  release, whether or not a block receive failed; when \<^verbatim>\<open>CMD18\<close> was not answered
  with 0, no \<^verbatim>\<open>CMD12\<close> is sent.
\<close>

theorem cmd12_iff_cmd18_acknowledged:
  assumes "1 < count"
  shows "(if occurrences (is_ack CMD18) (trace (snd (disk_read T pdrv buff sector count s)))
             = occurrences (is_ack CMD18) (trace s)
          then occurrences (is_cmd CMD12) (trace (snd (disk_read T pdrv buff sector count s)))
                 = occurrences (is_cmd CMD12) (trace s)
          else occurrences (is_cmd CMD12) (trace (snd (disk_read T pdrv buff sector count s)))
                 = occurrences (is_cmd CMD12) (trace s) + 1
               \<and> (\<exists>r. ends_with (trace (snd (disk_read T pdrv buff sector count s)))
                         [Ev_SendCommand pdrv CMD12 0 r, Ev_ReleaseSD pdrv]))"
  using assms
  by (simp add: disk_read_def Let_def case_prod_beta read_blocks_occurrences)

theorem cmd12_iff_cmd18_acknowledged_witness:
  "(1 :: DWORD) < 2
   \<and> occurrences (is_ack CMD18) (trace (snd (disk_read ready_card 0 0 0 2 (power_on ())))) = 1
   \<and> occurrences (is_cmd CMD12) (trace (snd (disk_read ready_card 0 0 0 2 (power_on ())))) = 1
   \<and> ends_with (trace (snd (disk_read ready_card 0 0 0 2 (power_on ()))))
        [Ev_SendCommand 0 CMD12 0 0, Ev_ReleaseSD 0]"
  using cmd12_iff_cmd18_acknowledged [of 2 ready_card 0 0 0 "power_on ()"]
  by (simp add: disk_read_def Let_def case_prod_beta read_blocks_occurrences
        ready_card_def power_on_def SendCommand_def ReleaseSD_def)

text \<open>
  C8. In a write of more than one sector in which \<^verbatim>\<open>CMD25\<close> is answered with 0, the stop
  token \<^verbatim>\<open>0xfd\<close> is sent after the loop over the sectors, as the last call before the
  release, and when the card rejects it (reply \<open>r = 0\<close>) the write returns
  \<^verbatim>\<open>RES_ERROR\<close>, also when every data block was taken.
\<close>

theorem stop_token_rejected_fails_write:
  assumes "1 < count"
    and "occurrences (is_ack CMD25) (trace (snd (disk_write T pdrv buff sector count s)))
           \<noteq> occurrences (is_ack CMD25) (trace s)"
  shows "\<exists>r. ends_with (trace (snd (disk_write T pdrv buff sector count s)))
               [Ev_SendBlock pdrv None 0xfd r, Ev_ReleaseSD pdrv]
             \<and> (r = 0 \<longrightarrow> fst (disk_write T pdrv buff sector count s) = RES_ERROR)"
proof -
  from assms(1) have "count \<noteq> 1" "count \<noteq> 0"
    by auto
  with assms(2) show ?thesis
    by (auto simp add: disk_write_def Let_def case_prod_beta write_blocks_occurrences
          split: if_splits)
qed

theorem stop_token_rejected_fails_write_witness:
  "(1 :: DWORD) < 2
   \<and> occurrences (is_ack CMD25) (trace (snd (disk_write ready_card 0 0 0 2 (power_on ())))) \<noteq> 0
   \<and> fst (write_blocks ready_card 0 2 0 0 (power_on ())) = 2
   \<and> ends_with (trace (snd (disk_write ready_card 0 0 0 2 (power_on ()))))
        [Ev_SendBlock 0 None 0xfd 0, Ev_ReleaseSD 0]
   \<and> fst (disk_write ready_card 0 0 0 2 (power_on ())) = RES_ERROR"
  using stop_token_rejected_fails_write [of 2 ready_card 0 0 0 "power_on ()"]
  by (simp add: disk_write_def Let_def case_prod_beta write_blocks_occurrences
        write_blocks.simps CT_SDC_def CT_SDC1_def CT_SDC2_def CT_BLOCK_def
        ready_card_def power_on_def SendCommand_def SendBlock_def ReleaseSD_def
        ends_with_def)



text \<open>
  C9. Let the card answer \<^verbatim>\<open>CMD0\<close> with 1 after the hundred dummy receives, answer
  \<^verbatim>\<open>CMD8\<close> with argument \<open>0x1aa\<close> with 1, deliver four bytes \<open>echo\<close> with
  \<open>0x01\<close> and \<open>0xaa\<close> as bytes 2 and 3, answer \<^verbatim>\<open>ACMD41\<close> with argument
  \<^verbatim>\<open>1 << 30\<close> with a code other than 0 for \<open>k\<close> polls and with 0 at the next one,
  where \<open>k < 10000\<close>, then answer \<^verbatim>\<open>CMD58\<close> with 0 and deliver the bytes \<open>ocr\<close>.
  Then \<^verbatim>\<open>disk_initialize\<close> returns 0 and classifies the card as SDv2, with the
  block-addressing bit set if and only if bit 6 (\<open>0x40\<close>) of the first byte of
  \<open>ocr\<close> is set. It has gone through every step of this handshake: the device is
  left as the release after the last receive leaves it, \<^verbatim>\<open>CMD8\<close> was sent once,
  \<^verbatim>\<open>ACMD41\<close> was sent \<open>k + 1\<close> times with \<open>k\<close> waits, and the calls end with the
  ready answer to \<^verbatim>\<open>ACMD41\<close>, \<^verbatim>\<open>CMD58\<close>, the receive of \<open>ocr\<close> and the release.
\<close>

theorem sdv2_classification:
  assumes cmd0: "hw_SendCommand T pdrv CMD0 0
                   (after_receives T pdrv 100 (hw_EnableSD T pdrv (dev s))) = (1, d3)"
    and cmd8: "hw_SendCommand T pdrv CMD8 0x1AA d3 = (1, d4)"
    and echo: "hw_ReceiveSD T pdrv 4 d4 = (echo, d5)" "4 \<le> length echo"
              "echo ! 2 = 0x01" "echo ! 3 = 0xaa"
    and busy: "failed_polls T pdrv ACMD41 (push_bit 30 1) k d5 = Some d6" "k < 10000"
    and ready: "hw_SendCommand T pdrv ACMD41 (push_bit 30 1) d6 = (0, d7)"
    and cmd58: "hw_SendCommand T pdrv CMD58 0 d7 = (0, d8)"
    and ocr: "hw_ReceiveSD T pdrv 4 d8 = (ocr, d9)" "ocr \<noteq> []"
  shows "fst (disk_initialize T pdrv buff s) = 0
         \<and> CardType (snd (disk_initialize T pdrv buff s)) =
             (if hd ocr AND 0x40 = 0 then CT_SDC2 else CT_SDC2 OR CT_BLOCK)
         \<and> dev (snd (disk_initialize T pdrv buff s)) = hw_ReleaseSD T pdrv d9
         \<and> occurrences is_WAITS (trace (snd (disk_initialize T pdrv buff s))) =
             occurrences is_WAITS (trace s) + k
         \<and> occurrences (is_cmd ACMD41) (trace (snd (disk_initialize T pdrv buff s))) =
             occurrences (is_cmd ACMD41) (trace s) + k + 1
         \<and> occurrences (is_cmd CMD8) (trace (snd (disk_initialize T pdrv buff s))) =
             occurrences (is_cmd CMD8) (trace s) + 1
         \<and> ends_with (trace (snd (disk_initialize T pdrv buff s)))
             [Ev_SendCommand pdrv ACMD41 (push_bit 30 1) 0, Ev_SendCommand pdrv CMD58 0 0,
              Ev_ReceiveSD pdrv 4 ocr, Ev_ReleaseSD pdrv]"
proof -
  let ?s3 = "snd (SendCommand T pdrv CMD8 0x1AA (snd (SendCommand T pdrv CMD0 0
               (dummy_clocks T pdrv buff 0 (EnableSD T pdrv s)))))"
  let ?s4 = "ReceiveSD T pdrv buff 4 ?s3"
  let ?p = "poll_ready T pdrv ACMD41 (push_bit 30 1) 0 ?s4"
  have d4: "dev ?s4 = d5"
    using cmd0 cmd8 echo(1) by (simp add: dev_dummy_clocks)
  have r4: "ram ?s4 (buff + 2) = 0x01" "ram ?s4 (buff + 3) = 0xaa"
    using cmd0 cmd8 echo by (simp_all add: dev_dummy_clocks ram_ReceiveSD store_def)
  have w4: "occurrences is_WAITS (trace ?s4) = occurrences is_WAITS (trace s)"
    and a4: "occurrences (is_cmd ACMD41) (trace ?s4) = occurrences (is_cmd ACMD41) (trace s)"
    and c4: "occurrences (is_cmd CMD8) (trace ?s4) = occurrences (is_cmd CMD8) (trace s) + 1"
    by (simp_all add: dummy_clocks_occurrences)
  from busy(1) d4 have f: "failed_polls T pdrv ACMD41 (push_bit 30 1) k (dev ?s4) = Some d6"
    by (simp only:)
  from busy(2) have "0 + k < 10000"
    by simp
  from poll_ready_after_failed_polls [OF f ready this]
  obtain tr where p: "fst ?p = k" "dev (snd ?p) = d7" "ram (snd ?p) = ram ?s4"
    "occurrences is_WAITS (trace (snd ?p)) = occurrences is_WAITS (trace ?s4) + k"
    "occurrences (is_cmd ACMD41) (trace (snd ?p))
       = occurrences (is_cmd ACMD41) (trace ?s4) + k + 1"
    "trace (snd ?p) = tr @ [Ev_SendCommand pdrv ACMD41 (push_bit 30 1) 0]"
    by auto
  have c5: "occurrences (is_cmd CMD8) (trace (snd ?p)) = occurrences (is_cmd CMD8) (trace ?s4)"
    by (rule poll_ready_occurrences) simp_all
  let ?s6 = "snd (SendCommand T pdrv CMD58 0 (snd ?p))"
  let ?s7 = "ReceiveSD T pdrv buff 4 ?s6"
  have r58: "fst (SendCommand T pdrv CMD58 0 (snd ?p)) = 0"
    using cmd58 p(2) by simp
  have d7: "dev ?s7 = d9" and r7: "ram ?s7 buff = hd ocr"
    and t7: "trace ?s7 = tr @ [Ev_SendCommand pdrv ACMD41 (push_bit 30 1) 0,
                              Ev_SendCommand pdrv CMD58 0 0, Ev_ReceiveSD pdrv 4 ocr]"
    using cmd58 p(2) p(6) ocr by (simp_all add: ram_ReceiveSD store_hd)
  have w7: "occurrences is_WAITS (trace ?s7) = occurrences is_WAITS (trace s) + k"
    and a7: "occurrences (is_cmd ACMD41) (trace ?s7)
               = occurrences (is_cmd ACMD41) (trace s) + k + 1"
    and c7: "occurrences (is_cmd CMD8) (trace ?s7) = occurrences (is_cmd CMD8) (trace s) + 1"
    using p(4) p(5) c5 w4 a4 c4 by simp_all
  have r0: "fst (SendCommand T pdrv CMD0 0 (dummy_clocks T pdrv buff 0 (EnableSD T pdrv s))) = 1"
    using cmd0 by (simp add: dev_dummy_clocks)
  have r8: "fst (SendCommand T pdrv CMD8 0x1AA (snd (SendCommand T pdrv CMD0 0
               (dummy_clocks T pdrv buff 0 (EnableSD T pdrv s))))) = 1"
    using cmd0 cmd8 by (simp add: dev_dummy_clocks)
  have sdv2: "init_sdv2 T pdrv buff ?s3 =
                (if hd ocr AND 0x40 = 0 then CT_SDC2 else CT_SDC2 OR CT_BLOCK, ?s7)"
    using r4 p(1) busy(2) r58 r7
    by (simp add: init_sdv2_def Let_def case_prod_beta del: fst_SendCommand)
  have init: "disk_initialize T pdrv buff s =
                (if (if hd ocr AND 0x40 = 0 then CT_SDC2 else CT_SDC2 OR CT_BLOCK) = 0
                 then STA_NOINIT else 0,
                 ReleaseSD T pdrv
                   (?s7\<lparr>CardType := if hd ocr AND 0x40 = 0 then CT_SDC2
                                        else CT_SDC2 OR CT_BLOCK\<rparr>))"
    using r0 r8
    by (simp add: disk_initialize_def Let_def case_prod_beta sdv2 del: fst_SendCommand)
  show ?thesis
    using d7 w7 a7 c7 t7
    by (simp only: init) (simp add: CT_SDC2_def CT_BLOCK_def)
qed

theorem sdv2_classification_witness:
  "hw_SendCommand slow_sdhc_card 0 CMD0 0
     (after_receives slow_sdhc_card 0 100
        (hw_EnableSD slow_sdhc_card 0 (dev (power_on (CMD0, 3 :: nat))))) = (1, (CMD0, 3))
   \<and> hw_SendCommand slow_sdhc_card 0 CMD8 0x1AA (CMD0, 3) = (1, (CMD8, 3))
   \<and> hw_ReceiveSD slow_sdhc_card 0 4 (CMD8, 3) = ([0x00, 0x00, 0x01, 0xaa], (CMD8, 3))
   \<and> failed_polls slow_sdhc_card 0 ACMD41 (push_bit 30 1) 3 (CMD8, 3) = Some (ACMD41, 0)
   \<and> (3 :: nat) < 10000
   \<and> hw_SendCommand slow_sdhc_card 0 ACMD41 (push_bit 30 1) (ACMD41, 0) = (0, (ACMD41, 0))
   \<and> hw_SendCommand slow_sdhc_card 0 CMD58 0 (ACMD41, 0) = (0, (CMD58, 0))
   \<and> hw_ReceiveSD slow_sdhc_card 0 4 (CMD58, 0) = ([0xc0, 0xff, 0x80, 0x00], (CMD58, 0))
   \<and> fst (disk_initialize slow_sdhc_card 0 0 (power_on (CMD0, 3))) = 0
   \<and> CardType (snd (disk_initialize slow_sdhc_card 0 0 (power_on (CMD0, 3))))
       = CT_SDC2 OR CT_BLOCK
   \<and> occurrences is_WAITS (trace (snd (disk_initialize slow_sdhc_card 0 0 (power_on (CMD0, 3)))))
       = 3
   \<and> occurrences (is_cmd ACMD41)
        (trace (snd (disk_initialize slow_sdhc_card 0 0 (power_on (CMD0, 3))))) = 4"
proof -
  have h0: "hw_SendCommand slow_sdhc_card 0 CMD0 0
     (after_receives slow_sdhc_card 0 100
        (hw_EnableSD slow_sdhc_card 0 (dev (power_on (CMD0, 3 :: nat))))) = (1, (CMD0, 3))"
    by (simp add: slow_sdhc_card_receives) (simp add: slow_sdhc_card_def power_on_def)
  have h8: "hw_SendCommand slow_sdhc_card 0 CMD8 0x1AA (CMD0, 3) = (1, (CMD8, 3))"
    by (simp add: slow_sdhc_card_def)
  have he: "hw_ReceiveSD slow_sdhc_card 0 4 (CMD8, 3) = ([0x00, 0x00, 0x01, 0xaa], (CMD8, 3))"
    by (simp add: slow_sdhc_card_def)
  have hb: "failed_polls slow_sdhc_card 0 ACMD41 (push_bit 30 1) 3 (CMD8, 3) = Some (ACMD41, 0)"
    by (simp add: slow_sdhc_card_def numeral_3_eq_3)
  have hr: "hw_SendCommand slow_sdhc_card 0 ACMD41 (push_bit 30 1) (ACMD41, 0)
            = (0, (ACMD41, 0))"
    by (simp add: slow_sdhc_card_def)
  have h58: "hw_SendCommand slow_sdhc_card 0 CMD58 0 (ACMD41, 0) = (0, (CMD58, 0))"
    by (simp add: slow_sdhc_card_def)
  have ho: "hw_ReceiveSD slow_sdhc_card 0 4 (CMD58, 0) = ([0xc0, 0xff, 0x80, 0x00], (CMD58, 0))"
    by (simp add: slow_sdhc_card_def)
  from sdv2_classification [OF h0 h8 he _ _ _ hb _ hr h58 ho, of 0]
  have "fst (disk_initialize slow_sdhc_card 0 0 (power_on (CMD0, 3))) = 0
   \<and> CardType (snd (disk_initialize slow_sdhc_card 0 0 (power_on (CMD0, 3))))
       = CT_SDC2 OR CT_BLOCK
   \<and> occurrences is_WAITS (trace (snd (disk_initialize slow_sdhc_card 0 0 (power_on (CMD0, 3)))))
       = 3
   \<and> occurrences (is_cmd ACMD41)
        (trace (snd (disk_initialize slow_sdhc_card 0 0 (power_on (CMD0, 3))))) = 4"
    by (simp add: power_on_def)
  with h0 h8 he hb hr h58 ho show ?thesis
    by simp
qed

text \<open>
  C7, as stated: for every register with bit 5 of byte 0 set, the value stored is
  \<^verbatim>\<open>((csd[9] + (csd[8] << 8) + ((csd[7] & 63) << 16)) + 1) << 10\<close>. It is not for the
  register whose bytes 7 to 9 are \<open>0x3f\<close>, \<open>0xff\<close>, \<open>0xff\<close>: the formula is
  \<open>2 ^ 32\<close> = 4294967296 there, and \<^verbatim>\<open>cs << 10\<close>, computed in \<^verbatim>\<open>unsigned int\<close>,
  stores 0.
\<close>

theorem sector_count_formula_counterexample:
  "fst (disk_ioctl csd_full_card 0 GET_SECTOR_COUNT 0 (power_on ())) = (RES_OK, Out_LBA 0)
   \<and> length csd_full = 16 \<and> csd_full ! 0 AND 0x20 \<noteq> 0
   \<and> spec_sector_count (unat (csd_full ! 7)) (unat (csd_full ! 8)) (unat (csd_full ! 9))
       = 4294967296"
  by (simp add: disk_ioctl_def case_prod_beta ram_ReceiveBlock store_def csd_v1_sectors_def
        csd_full_card_def csd_full_def power_on_def SendCommand_def ReceiveBlock_def Let_def
        spec_sector_count_def)

text \<open>
  C7, amended. When \<^verbatim>\<open>GET_SECTOR_COUNT\<close> sends \<^verbatim>\<open>CMD9\<close>, the card answers 0 and the
  receive of 16 bytes succeeds with a register \<open>bs\<close> whose byte 0 has bit 5 set,
  \<^verbatim>\<open>disk_ioctl\<close> returns \<^verbatim>\<open>RES_OK\<close> and stores the value \<open>v\<close> of the formula
  reduced modulo \<open>2 ^ 32\<close>: the value of the formula itself for every register
  but the one in which the 22-bit field is all ones, and 0 for that one. Bytes 7 to 9
  equal to \<open>0x3f\<close>, \<open>0x00\<close>, \<open>0x01\<close> give \<^verbatim>\<open>0x3f0002 << 10\<close>.
\<close>

theorem sector_count_csd_v1:
  assumes "ends_with (trace (snd (disk_ioctl T pdrv GET_SECTOR_COUNT csd s)))
             [Ev_SendCommand pdrv CMD9 0 0, Ev_ReceiveBlock pdrv 16 b bs, Ev_ReleaseSD pdrv]"
    and "b \<noteq> 0" and "length bs = 16" and "bs ! 0 AND 0x20 \<noteq> 0"
  shows "\<exists>v. fst (disk_ioctl T pdrv GET_SECTOR_COUNT csd s) = (RES_OK, Out_LBA v)
             \<and> unat v = spec_sector_count (unat (bs ! 7)) (unat (bs ! 8)) (unat (bs ! 9))
                          mod 2 ^ 32
             \<and> (unat (bs ! 7) mod 64 \<noteq> 63 \<or> bs ! 8 \<noteq> 0xff \<or> bs ! 9 \<noteq> 0xff
                  \<longrightarrow> unat v = spec_sector_count (unat (bs ! 7)) (unat (bs ! 8))
                                  (unat (bs ! 9)))
             \<and> (unat (bs ! 7) mod 64 = 63 \<and> bs ! 8 = 0xff \<and> bs ! 9 = 0xff \<longrightarrow> v = 0)
             \<and> (bs ! 7 = 0x3f \<and> bs ! 8 = 0x00 \<and> bs ! 9 = 0x01
                  \<longrightarrow> v = push_bit 10 0x3f0002)"
proof -
  let ?c = "\<lambda>k. ram (snd (ReceiveBlock T pdrv csd 16 (snd (SendCommand T pdrv CMD9 0 s))))
                 (csd + k)"
  from assms have res: "fst (disk_ioctl T pdrv GET_SECTOR_COUNT csd s)
                        = (RES_OK, Out_LBA (csd_v1_sectors ?c))"
    and c: "?c 7 = bs ! 7" "?c 8 = bs ! 8" "?c 9 = bs ! 9"
    by (auto simp add: disk_ioctl_def case_prod_beta ram_ReceiveBlock store_def
          split: if_splits)
  show ?thesis
    using res c csd_v1_sectors_unat [of ?c] csd_v1_sectors_exact [of ?c]
      csd_v1_sectors_wraps [of ?c] csd_v1_sectors_vector [of ?c]
    by (intro exI [of _ "csd_v1_sectors ?c"]) (simp del: One_nat_def)
qed

theorem sector_count_csd_v1_witness:
  "ends_with (trace (snd (disk_ioctl csd_card 0 GET_SECTOR_COUNT 0 (power_on ()))))
     [Ev_SendCommand 0 CMD9 0 0, Ev_ReceiveBlock 0 16 1 csd_sample, Ev_ReleaseSD 0]
   \<and> (1 :: int) \<noteq> 0 \<and> length csd_sample = 16 \<and> csd_sample ! 0 AND 0x20 \<noteq> 0
   \<and> csd_sample ! 7 = 0x3f \<and> csd_sample ! 8 = 0x00 \<and> csd_sample ! 9 = 0x01
   \<and> spec_sector_count (unat (csd_sample ! 7)) (unat (csd_sample ! 8)) (unat (csd_sample ! 9))
       = 4227860480
   \<and> fst (disk_ioctl csd_card 0 GET_SECTOR_COUNT 0 (power_on ())) =
       (RES_OK, Out_LBA 4227860480)"
  using sector_count_csd_v1 [of csd_card 0 0 "power_on ()" 1 csd_sample]
  by (simp add: disk_ioctl_def case_prod_beta ram_ReceiveBlock store_def csd_v1_sectors_def
        csd_card_def csd_sample_def power_on_def SendCommand_def ReceiveBlock_def Let_def
        spec_sector_count_def)

text \<open>
  C3, as stated: initializing drive \<open>d1\<close> leaves the card type used by reads and
  writes on another drive \<open>d2\<close> unchanged. It does not: \<^verbatim>\<open>CardType\<close> is one variable.
  With a block-addressed card classified, a read of sector 1 on drive 0 sends the
  address 1; after \<^verbatim>\<open>disk_initialize\<close> on drive 1 has found no card, \<^verbatim>\<open>CardType\<close> is
  0 and the same read on drive 0 sends the address 512.
\<close>

theorem card_type_per_drive_counterexample:
  "(1 :: BYTE) \<noteq> 0
   \<and> CardType block_addressed = CT_SDC2 OR CT_BLOCK
   \<and> CardType (snd (disk_initialize dead_card 1 0 block_addressed)) = 0
   \<and> ends_with (trace (snd (disk_read dead_card 0 0 1 1 block_addressed)))
        [Ev_SendCommand 0 CMD17 1 255, Ev_ReleaseSD 0]
   \<and> ends_with (trace (snd (disk_read dead_card 0 0 1 1
                  (snd (disk_initialize dead_card 1 0 block_addressed)))))
        [Ev_SendCommand 0 CMD17 512 255, Ev_ReleaseSD 0]"
  by (simp add: disk_read_def disk_initialize_def Let_def case_prod_beta
        block_addressed_def CT_SDC2_def CT_BLOCK_def)
     (simp add: dead_card_def)

text \<open>
  C3, amended. The card type is one process-wide value, shared by all drive indices.
  \<^verbatim>\<open>disk_initialize\<close> on any drive \<open>d1\<close> replaces it by the type it classifies,
  whatever value \<open>ct\<close> was stored before, and the reads and writes that follow on any
  drive \<open>d2\<close> use that type: the sector address sent with the read or write command
  is multiplied by 512 unless the type has the block-addressing bit, and \<^verbatim>\<open>ACMD23\<close>
  is sent before a write of \<^verbatim>\<open>count \<noteq> 1\<close> sectors exactly if the type is of the SD
  family.
\<close>

theorem card_type_shared_by_all_drives:
  "disk_initialize T d1 buff (s\<lparr>CardType := ct\<rparr>) = disk_initialize T d1 buff s
   \<and> occurrences
        (is_cmd_arg d2 (if 1 < count then CMD18 else CMD17)
           (if CardType (snd (disk_initialize T d1 buff s)) AND CT_BLOCK = 0
            then sector * 512 else sector))
        (trace (snd (disk_read T d2 b sector count
                  ((snd (disk_initialize T d1 buff s))\<lparr>trace := []\<rparr>)))) = 1
   \<and> occurrences
        (is_cmd_arg d2 (if count = 1 then CMD24 else CMD25)
           (if CardType (snd (disk_initialize T d1 buff s)) AND CT_BLOCK = 0
            then sector * 512 else sector))
        (trace (snd (disk_write T d2 b sector count
                  ((snd (disk_initialize T d1 buff s))\<lparr>trace := []\<rparr>)))) = 1
   \<and> occurrences (is_cmd ACMD23)
        (trace (snd (disk_write T d2 b sector count
                  ((snd (disk_initialize T d1 buff s))\<lparr>trace := []\<rparr>)))) =
       (if count \<noteq> 1 \<and> CardType (snd (disk_initialize T d1 buff s)) AND CT_SDC \<noteq> 0
        then 1 else 0)"
proof (intro conjI)
  show "disk_initialize T d1 buff (s\<lparr>CardType := ct\<rparr>) = disk_initialize T d1 buff s"
    by (rule disk_initialize_forgets)
  show "occurrences
        (is_cmd_arg d2 (if 1 < count then CMD18 else CMD17)
           (if CardType (snd (disk_initialize T d1 buff s)) AND CT_BLOCK = 0
            then sector * 512 else sector))
        (trace (snd (disk_read T d2 b sector count
                  ((snd (disk_initialize T d1 buff s))\<lparr>trace := []\<rparr>)))) = 1"
    by (simp add: disk_read_def Let_def case_prod_beta read_blocks_occurrences)
  show "occurrences
        (is_cmd_arg d2 (if count = 1 then CMD24 else CMD25)
           (if CardType (snd (disk_initialize T d1 buff s)) AND CT_BLOCK = 0
            then sector * 512 else sector))
        (trace (snd (disk_write T d2 b sector count
                  ((snd (disk_initialize T d1 buff s))\<lparr>trace := []\<rparr>)))) = 1"
    by (simp add: disk_write_def Let_def case_prod_beta write_blocks_occurrences)
  show "occurrences (is_cmd ACMD23)
        (trace (snd (disk_write T d2 b sector count
                  ((snd (disk_initialize T d1 buff s))\<lparr>trace := []\<rparr>)))) =
       (if count \<noteq> 1 \<and> CardType (snd (disk_initialize T d1 buff s)) AND CT_SDC \<noteq> 0
        then 1 else 0)"
    by (simp add: disk_write_def Let_def case_prod_beta write_blocks_occurrences)
qed

text \<open>
  C4, as stated: a field that is unset falls back to the compiled-in default, and in
  particular a string whose baud field is empty before the first comma yields the
  default baud rate. It does not: \<^verbatim>\<open>baud = atoi(name)\<close> is executed for every
  non-empty string, and \<^verbatim>\<open>atoi\<close> of a string that starts with a comma is 0. With
  \<^verbatim>\<open>__propeller2__\<close> the baud rate 0 is passed on to \<^verbatim>\<open>_uart_init\<close>; without it,
  \<^verbatim>\<open>_clkfreq / baud\<close> divides by zero.
\<close>

theorem empty_baud_field_counterexample:
  "fst (parse_name atoi_c p2_board (Some '',63,62'')) = 0
   \<and> default_baud p2_board = 230400
   \<and> uart_init (projr (serial_fopen atoi_c p2_board 1 blank_file (Some '',63,62'')))
       = Some (63, 62, 0)
   \<and> serial_fopen atoi_c p1_board 1 blank_file (Some '',31,30'') = Inl Division_by_zero"
  by (simp add: serial_fopen_def parse_name_def skip_field_def atoi_c_def isspace_c_def
        isdigit_c_def p2_board_def p1_board_def blank_file_def Let_def)

text \<open>
  C4, amended. \<^verbatim>\<open>_serial_fopen\<close> parses the fields from left to right. A null or
  empty string leaves the three defaults. Otherwise the baud rate is \<^verbatim>\<open>atoi\<close> of the
  string; the receive pin is \<^verbatim>\<open>atoi\<close> of the text after the first comma, and the
  default when there is no comma; the transmit pin is \<^verbatim>\<open>atoi\<close> of the text after the
  second comma, and the default when there is no second comma. So only the fields
  missing at the end of the string fall back to the defaults; a baud field that is
  empty before the first comma yields \<^verbatim>\<open>atoi\<close>'s value 0. With \<^verbatim>\<open>__propeller2__\<close>
  the call always returns the success code 0 and hands the three values to
  \<^verbatim>\<open>_uart_init\<close>; in either build, every call that returns returns 0.
\<close>

theorem fopen_fields_and_defaults:
  "parse_name atoi pf None = (default_baud pf, default_rxpin pf, default_txpin pf)
   \<and> parse_name atoi pf (Some []) = (default_baud pf, default_rxpin pf, default_txpin pf)
   \<and> (f0 \<noteq> [] \<and> CHR '','' \<notin> set f0 \<longrightarrow>
        parse_name atoi pf (Some f0) =
          (word_of_int (atoi f0), default_rxpin pf, default_txpin pf))
   \<and> (CHR '','' \<notin> set f0 \<and> CHR '','' \<notin> set f1 \<longrightarrow>
        parse_name atoi pf (Some (f0 @ CHR '','' # f1)) =
          (word_of_int (atoi (f0 @ CHR '','' # f1)), word_of_int (atoi f1), default_txpin pf))
   \<and> (CHR '','' \<notin> set f0 \<and> CHR '','' \<notin> set f1 \<longrightarrow>
        parse_name atoi pf (Some (f0 @ CHR '','' # f1 @ CHR '','' # f2)) =
          (word_of_int (atoi (f0 @ CHR '','' # f1 @ CHR '','' # f2)),
           word_of_int (atoi (f1 @ CHR '','' # f2)), word_of_int (atoi f2)))
   \<and> fst (parse_name atoi_c pf (Some (CHR '','' # f2))) = 0
   \<and> (propeller2 pf \<longrightarrow>
        (\<exists>r. serial_fopen atoi pf newlock fp name = Inr r \<and> rc r = 0
              \<and> uart_init r = Some (fst (snd (parse_name atoi pf name)),
                                    snd (snd (parse_name atoi pf name)),
                                    fst (parse_name atoi pf name))))
   \<and> (\<forall>r. serial_fopen atoi pf newlock fp name = Inr r \<longrightarrow> rc r = 0)"
proof (intro conjI impI allI)
  show "parse_name atoi pf None = (default_baud pf, default_rxpin pf, default_txpin pf)"
    by (simp add: parse_name_def)
  show "parse_name atoi pf (Some []) = (default_baud pf, default_rxpin pf, default_txpin pf)"
    by (simp add: parse_name_def)
  show "parse_name atoi pf (Some f0) =
          (word_of_int (atoi f0), default_rxpin pf, default_txpin pf)"
    if "f0 \<noteq> [] \<and> CHR '','' \<notin> set f0"
    using that by (simp add: parse_name_def Let_def skip_field_no_comma)
  show "parse_name atoi pf (Some (f0 @ CHR '','' # f1)) =
          (word_of_int (atoi (f0 @ CHR '','' # f1)), word_of_int (atoi f1), default_txpin pf)"
    if "CHR '','' \<notin> set f0 \<and> CHR '','' \<notin> set f1"
    using that by (simp add: parse_name_def Let_def skip_field_no_comma skip_field_comma)
  show "parse_name atoi pf (Some (f0 @ CHR '','' # f1 @ CHR '','' # f2)) =
          (word_of_int (atoi (f0 @ CHR '','' # f1 @ CHR '','' # f2)),
           word_of_int (atoi (f1 @ CHR '','' # f2)), word_of_int (atoi f2))"
    if "CHR '','' \<notin> set f0 \<and> CHR '','' \<notin> set f1"
    using that by (simp add: parse_name_def Let_def skip_field_comma)
  show "fst (parse_name atoi_c pf (Some (CHR '','' # f2))) = 0"
    by (simp add: parse_name_def Let_def atoi_c_comma split: prod.splits if_splits)
  show "\<exists>r. serial_fopen atoi pf newlock fp name = Inr r \<and> rc r = 0
              \<and> uart_init r = Some (fst (snd (parse_name atoi pf name)),
                                    snd (snd (parse_name atoi pf name)),
                                    fst (parse_name atoi pf name))"
    if "propeller2 pf"
    using that by (simp add: serial_fopen_def Let_def case_prod_beta)
  show "rc r = 0" if "serial_fopen atoi pf newlock fp name = Inr r" for r
    using that by (auto simp add: serial_fopen_def Let_def case_prod_beta split: if_splits)
qed

theorem fopen_fields_and_defaults_witness:
  "''115200'' \<noteq> [] \<and> CHR '','' \<notin> set ''115200''
   \<and> parse_name atoi_c p2_board (Some ''115200'') = (115200, 63, 62)
   \<and> CHR '','' \<notin> set ''9600'' \<and> CHR '','' \<notin> set ''10''
   \<and> parse_name atoi_c p2_board (Some ''9600,10'') = (9600, 10, 62)
   \<and> parse_name atoi_c p2_board (Some ''9600,10,11'') = (9600, 10, 11)
   \<and> propeller2 p2_board
   \<and> serial_fopen atoi_c p2_board 1 blank_file (Some ''9600,10,11'') =
       Inr \<lparr>rc = 0,
            stream = \<lparr>drvarg = (drvarg blank_file)(0 := 10, 1 := 11, 2 := 9600),
                     flag = 0x100, lock = 1\<rparr>,
            uart_init = Some (10, 11, 9600)\<rparr>
   \<and> rc (projr (serial_fopen atoi_c p2_board 1 blank_file (Some ''9600,10,11''))) = 0"
  using fopen_fields_and_defaults [of atoi_c p2_board "''115200''" "''10''" "''11''" 1
          blank_file "Some ''9600,10,11''"]
        fopen_fields_and_defaults [of atoi_c p2_board "''9600''" "''10''" "''11''" 1
          blank_file "Some ''9600,10,11''"]
  by (simp add: serial_fopen_def parse_name_def skip_field_def atoi_c_def isspace_c_def
        isdigit_c_def p2_board_def blank_file_def Let_def)



end
